theory Spec2Isabelle
  imports Main "HOL-Library.AList" "HOL-Library.Sublist"
begin

section \<open>The sandbox server of k8s-simulator\<close>

text \<open>
  The repository holds two editions of the Express server that manages the sandboxes:
  \<^verbatim>\<open>backend/src/server.js\<close>, which creates and deletes clusters with \<^verbatim>\<open>kind\<close> and validates
  them with \<^verbatim>\<open>k3d cluster list <id>\<close>, and a second server file (\<^verbatim>\<open>unnamed/part_000\<close>, here
  the k3d edition) that uses \<^verbatim>\<open>k3d\<close> throughout and validates by searching the output of
  \<^verbatim>\<open>k3d cluster list\<close>. Definitions named as in the source embed
  \<^verbatim>\<open>backend/src/server.js\<close>; the same name with the suffix \<open>_k3d\<close> embeds the function of
  that name in the k3d edition. The handler of a route is named after the route
  (\<open>post_sandbox\<close>, \<open>post_sandbox_exec\<close>, \<open>delete_sandbox\<close>), and \<open>route_\<close> is the
  handler behind its middleware.

  Everything outside the process (the command runner \<^verbatim>\<open>execa\<close>, the clock, the id generator,
  the file system, the timer) is a parameter: a record of functions over an abstract world
  \<open>'w\<close>. A rejected promise is \<open>Inl\<close> of the error's message, a resolved one \<open>Inr\<close> of the
  value. Each handler is a function from the state before to the response and the state after;
  the \<^verbatim>\<open>await\<close>s run in the order of the source.
\<close>

subsection \<open>JavaScript values and strings\<close>

datatype jsval = JUndefined | JString string | JNumber int

text \<open>Reading a property of a string primitive: \<^verbatim>\<open>length\<close> is the only own data property the
  model knows; any other name that \<^verbatim>\<open>String.prototype\<close> does not define reads as
  \<^verbatim>\<open>undefined\<close>.\<close>

definition string_property :: "string \<Rightarrow> string \<Rightarrow> jsval" where
  "string_property str name =
     (if name = ''length'' then JNumber (int (length str)) else JUndefined)"

text \<open>\<^verbatim>\<open>str.split(c)\<close> for a separator of one character.\<close>

fun js_split :: "char \<Rightarrow> string \<Rightarrow> string list" where
  "js_split c [] = [[]]"
| "js_split c (x # xs) =
     (if x = c then [] # js_split c xs
      else (case js_split c xs of [] \<Rightarrow> [[x]] | y # ys \<Rightarrow> (x # y) # ys))"

text \<open>\<^verbatim>\<open>line.includes(sub)\<close>: \<open>sub\<close> occurs in \<open>line\<close> as a contiguous substring.\<close>

fun js_includes :: "string \<Rightarrow> string \<Rightarrow> bool" where
  "js_includes [] sub = (sub = [])"
| "js_includes (x # xs) sub = (prefix sub (x # xs) \<or> js_includes xs sub)"

subsection \<open>The environment, the state, requests and responses\<close>

record 'w env =
  execa :: "'w \<Rightarrow> string \<Rightarrow> string list \<Rightarrow> (string + string) \<times> 'w"
  date_now :: "'w \<Rightarrow> int"
  generateId :: "'w \<Rightarrow> string \<times> 'w"
  fs_writeFile :: "'w \<Rightarrow> string \<Rightarrow> string \<Rightarrow> (string + unit) \<times> 'w"
  fs_unlink :: "'w \<Rightarrow> string \<Rightarrow> (string + unit) \<times> 'w"
  setTimeout :: "'w \<Rightarrow> nat \<Rightarrow> 'w"

text \<open>
  The two module-level maps are association lists in insertion order, as a JavaScript
  \<^verbatim>\<open>Map\<close> iterates: \<^verbatim>\<open>set\<close> is \<^const>\<open>AList.update\<close> (an existing key keeps its place),
  \<^verbatim>\<open>delete\<close> is \<^const>\<open>AList.delete\<close>, \<^verbatim>\<open>get\<close> is \<^const>\<open>map_of\<close>. The field \<open>calls\<close> is a
  history variable: every invocation of \<^verbatim>\<open>execa\<close>, in order, with its arguments.
\<close>

record 'w state =
  sandboxes :: "(string \<times> int) list"
  creationLocks :: "(string \<times> bool) list"
  world :: 'w
  calls :: "(string \<times> string list) list"

text \<open>
  A request is what the handlers read of it, \<^verbatim>\<open>req.ip\<close>, \<^verbatim>\<open>req.cookies.sandboxId\<close> and
  \<^verbatim>\<open>req.body\<close>, and what becomes of its connection. \<^verbatim>\<open>req.body\<close> is \<^verbatim>\<open>undefined\<close> when the
  body parser left it unset, or an object whose \<^verbatim>\<open>command\<close> is missing or a string. The
  client either waits for the answer or closes the connection before the answer is sent
  (\<open>aborted\<close>); the response's \<^verbatim>\<open>finish\<close> event fires only in the first case.
\<close>

datatype request_body = BodyUndefined | BodyObject "string option"

record request =
  ip :: string
  cookie_sandboxId :: "string option"
  req_body :: request_body
  aborted :: bool

text \<open>
  A response is its status, its JSON body and the cookie operations made on it, in order;
  of the options of \<^verbatim>\<open>res.cookie\<close> only \<^verbatim>\<open>maxAge\<close> is kept. The fields of the bodies are:
  \<^verbatim>\<open>error\<close>; \<^verbatim>\<open>message\<close>, \<^verbatim>\<open>sandboxId\<close>, \<^verbatim>\<open>expiresIn\<close>; \<^verbatim>\<open>message\<close>, \<^verbatim>\<open>command\<close>,
  \<^verbatim>\<open>output\<close>; \<^verbatim>\<open>message\<close>.
\<close>

datatype cookie_op = ClearCookie string | SetCookie string string int

datatype body =
    ErrorJson string
  | SandboxJson string string string
  | ExecJson string string jsval
  | MessageJson string

record response =
  status :: nat
  json :: body
  set_cookies :: "cookie_op list"

definition SANDBOX_LIFETIME_MS :: int where
  "SANDBOX_LIFETIME_MS = 60 * 60 * 1000"

text \<open>The template \<^verbatim>\<open>`${SANDBOX_LIFETIME_MS / 1000 / 60} minutes`\<close> evaluated.\<close>

definition expiresIn :: string where
  "expiresIn = ''60 minutes''"

definition run_execa ::
  "'w env \<Rightarrow> 'w state \<Rightarrow> string \<Rightarrow> string list \<Rightarrow> (string + string) \<times> 'w state" where
  "run_execa env s file args =
     (case execa env (world s) file args of
        (r, w) \<Rightarrow> (r, s\<lparr>world := w, calls := calls s @ [(file, args)]\<rparr>))"

subsection \<open>\<^verbatim>\<open>backend/src/server.js\<close>\<close>

definition config_yaml :: "string \<Rightarrow> string" where
  "config_yaml sandboxId =
     [CHR 0x0A] @ ''kind: Cluster'' @ [CHR 0x0A]
     @ ''apiVersion: kind.x-k8s.io/v1alpha4'' @ [CHR 0x0A]
     @ ''name: '' @ sandboxId @ [CHR 0x0A]
     @ ''nodes:'' @ [CHR 0x0A]
     @ ''- role: control-plane'' @ [CHR 0x0A]
     @ ''  extraPortMappings:'' @ [CHR 0x0A]
     @ ''  - containerPort: 80'' @ [CHR 0x0A]
     @ ''    hostPort: 0'' @ [CHR 0x0A]
     @ ''    protocol: TCP'' @ [CHR 0x0A]"

definition createCluster ::
  "'w env \<Rightarrow> 'w state \<Rightarrow> string \<Rightarrow> (string + bool) \<times> 'w state" where
  "createCluster env s sandboxId =
     (let configPath = ''/tmp/'' @ sandboxId @ ''-config.yaml'' in
      case fs_writeFile env (world s) configPath (config_yaml sandboxId) of
        (Inl msg, w1) \<Rightarrow> (Inl (''Failed to create cluster: '' @ msg), s\<lparr>world := w1\<rparr>)
      | (Inr _, w1) \<Rightarrow>
          (case run_execa env (s\<lparr>world := w1\<rparr>) ''kind''
                  [''create'', ''cluster'', ''--config'', configPath] of
             (Inl msg, s2) \<Rightarrow> (Inl (''Failed to create cluster: '' @ msg), s2)
           | (Inr _, s2) \<Rightarrow>
               (case fs_unlink env (world s2) configPath of
                  (Inl msg, w3) \<Rightarrow>
                    (Inl (''Failed to create cluster: '' @ msg), s2\<lparr>world := w3\<rparr>)
                | (Inr _, w3) \<Rightarrow>
                    (Inr True,
                     s2\<lparr>world := w3,
                        sandboxes := AList.update sandboxId (date_now env w3) (sandboxes s2)\<rparr>))))"

definition deleteCluster ::
  "'w env \<Rightarrow> 'w state \<Rightarrow> string \<Rightarrow> (string + unit) \<times> 'w state" where
  "deleteCluster env s sandboxId =
     (case run_execa env s ''kind'' [''delete'', ''cluster'', ''--name'', sandboxId] of
        (Inl msg, s1) \<Rightarrow> (Inl (''Failed to delete cluster: '' @ msg), s1)
      | (Inr _, s1) \<Rightarrow> (Inr (), s1\<lparr>sandboxes := AList.delete sandboxId (sandboxes s1)\<rparr>))"

text \<open>
  \<^verbatim>\<open>cleanupExpiredSandboxes\<close>: \<^verbatim>\<open>now\<close> is read once; the loop visits the entries of the map in
  order. The only entry the body removes is the one being visited, so the entries still to
  visit are the tail of the list. (The local counter \<^verbatim>\<open>cleanedCount\<close> is never read.)
\<close>

fun cleanup_loop :: "'w env \<Rightarrow> int \<Rightarrow> (string \<times> int) list \<Rightarrow> 'w state \<Rightarrow> 'w state" where
  "cleanup_loop env now [] s = s"
| "cleanup_loop env now ((sandboxId, createdAt) # rest) s =
     (if now - createdAt > SANDBOX_LIFETIME_MS then
        (case deleteCluster env s sandboxId of
           (Inr _, s1) \<Rightarrow>
             cleanup_loop env now rest
               (s1\<lparr>sandboxes := AList.delete sandboxId (sandboxes s1)\<rparr>)
         | (Inl _, s1) \<Rightarrow> cleanup_loop env now rest s1)
      else cleanup_loop env now rest s)"

definition cleanupExpiredSandboxes :: "'w env \<Rightarrow> 'w state \<Rightarrow> 'w state" where
  "cleanupExpiredSandboxes env s =
     cleanup_loop env (date_now env (world s)) (sandboxes s) s"

text \<open>
  The middleware \<^verbatim>\<open>preventConcurrentRequests\<close> runs without an \<^verbatim>\<open>await\<close>: it answers 429
  (\<open>Some\<close> response) or takes the lock and calls \<^verbatim>\<open>next()\<close> (\<open>None\<close>). The callback it
  registers for the response's \<^verbatim>\<open>finish\<close> event is \<open>on_finish\<close>.
\<close>

definition preventConcurrentRequests ::
  "'w state \<Rightarrow> request \<Rightarrow> response option \<times> 'w state" where
  "preventConcurrentRequests s req =
     (if map_of (creationLocks s) (ip req) = Some True then
        (Some \<lparr>status = 429,
               json = ErrorJson
                 ''A sandbox is already being created for this IP. Please wait.'',
               set_cookies = []\<rparr>, s)
      else (None, s\<lparr>creationLocks := AList.update (ip req) True (creationLocks s)\<rparr>))"

definition on_finish :: "'w state \<Rightarrow> request \<Rightarrow> 'w state" where
  "on_finish s req = s\<lparr>creationLocks := AList.delete (ip req) (creationLocks s)\<rparr>"

definition validateSandbox ::
  "'w env \<Rightarrow> 'w state \<Rightarrow> request \<Rightarrow> response option \<times> 'w state" where
  "validateSandbox env s req =
     (case cookie_sandboxId req of
        None \<Rightarrow>
          (Some \<lparr>status = 401,
                 json = ErrorJson ''Sandbox not found. Create a new sandbox first.'',
                 set_cookies = []\<rparr>, s)
      | Some sandboxId \<Rightarrow>
          if sandboxId = [] then
            (Some \<lparr>status = 401,
                   json = ErrorJson ''Sandbox not found. Create a new sandbox first.'',
                   set_cookies = []\<rparr>, s)
          else
            (case run_execa env s ''k3d'' [''cluster'', ''list'', sandboxId] of
               (Inr _, s1) \<Rightarrow> (None, s1)
             | (Inl _, s1) \<Rightarrow>
                 (Some \<lparr>status = 404,
                        json = ErrorJson ''Sandbox not found or expired.'',
                        set_cookies = [ClearCookie ''sandboxId'']\<rparr>,
                  s1\<lparr>sandboxes := AList.delete sandboxId (sandboxes s1)\<rparr>)))"

definition executeKubectlCommand ::
  "'w env \<Rightarrow> 'w state \<Rightarrow> string \<Rightarrow> string \<Rightarrow> (string + string) \<times> 'w state" where
  "executeKubectlCommand env s sandboxId command =
     (let args = js_split CHR '' '' command in
      case run_execa env s ''kubectl'' ([''--context'', ''kind-'' @ sandboxId] @ args) of
        (Inl msg, s1) \<Rightarrow> (Inl (''Error executing command: '' @ msg), s1)
      | (Inr out, s1) \<Rightarrow> (Inr out, s1))"

text \<open>Lines 146 to 164 of the handler of \<^verbatim>\<open>POST /sandbox\<close>: a new id, the cluster, the cookie.
  \<open>cleared\<close> holds the cookie operations the handler has already made.\<close>

definition create_new ::
  "'w env \<Rightarrow> 'w state \<Rightarrow> cookie_op list \<Rightarrow> response \<times> 'w state" where
  "create_new env s cleared =
     (case generateId env (world s) of
        (generated, w) \<Rightarrow>
          (let sandboxId = ''sb-'' @ generated in
           case createCluster env (s\<lparr>world := w\<rparr>) sandboxId of
             (Inl msg, s1) \<Rightarrow>
               (\<lparr>status = 500, json = ErrorJson msg, set_cookies = cleared\<rparr>, s1)
           | (Inr _, s1) \<Rightarrow>
               (\<lparr>status = 200,
                 json = SandboxJson ''Sandbox created successfully'' sandboxId expiresIn,
                 set_cookies =
                   cleared @ [SetCookie ''sandboxId'' sandboxId SANDBOX_LIFETIME_MS]\<rparr>,
                s1)))"

definition post_sandbox :: "'w env \<Rightarrow> 'w state \<Rightarrow> request \<Rightarrow> response \<times> 'w state" where
  "post_sandbox env s req =
     (case cookie_sandboxId req of
        None \<Rightarrow> create_new env s []
      | Some existingSandboxId \<Rightarrow>
          if existingSandboxId = [] then create_new env s []
          else
            (case run_execa env s ''k3d'' [''cluster'', ''list'', existingSandboxId] of
               (Inr _, s1) \<Rightarrow>
                 (\<lparr>status = 200,
                   json = SandboxJson ''Using existing sandbox'' existingSandboxId expiresIn,
                   set_cookies = []\<rparr>, s1)
             | (Inl _, s1) \<Rightarrow>
                 create_new env
                   (s1\<lparr>sandboxes := AList.delete existingSandboxId (sandboxes s1)\<rparr>)
                   [ClearCookie ''sandboxId'']))"

text \<open>
  The handlers of \<^verbatim>\<open>POST /sandbox/exec\<close> and \<^verbatim>\<open>DELETE /sandbox\<close> read the cookie again. They
  run behind \<^verbatim>\<open>validateSandbox\<close>, which lets a request through only with a non-empty
  cookie; \<open>cookie_text\<close> is that value, and for a request with no cookie the text JavaScript
  puts into a template for \<^verbatim>\<open>undefined\<close>. The first statement of the handler of
  \<^verbatim>\<open>POST /sandbox/exec\<close>, \<^verbatim>\<open>const { command } = req.body\<close>, is inside the \<^verbatim>\<open>try\<close>: when
  \<^verbatim>\<open>req.body\<close> is \<^verbatim>\<open>undefined\<close> it throws a \<^verbatim>\<open>TypeError\<close>, and the \<^verbatim>\<open>catch\<close> answers 500
  with the error's message (\<open>destructure_error\<close>, the wording of the engine). A missing or
  empty command is what \<^verbatim>\<open>!command\<close> tests. In \<^verbatim>\<open>backend/src/server.js\<close> the variable
  \<^verbatim>\<open>result\<close> holds the string that \<^verbatim>\<open>executeKubectlCommand\<close> returned, and the response
  reads \<^verbatim>\<open>result.stdout\<close>.
\<close>

definition destructure_error :: string where
  "destructure_error =
     ''Cannot destructure property '' @ [CHR 0x27] @ ''command'' @ [CHR 0x27] @ '' of ''
     @ [CHR 0x27] @ ''req.body'' @ [CHR 0x27] @ '' as it is undefined.''"

definition cookie_text :: "request \<Rightarrow> string" where
  "cookie_text req = (case cookie_sandboxId req of None \<Rightarrow> ''undefined'' | Some v \<Rightarrow> v)"

definition post_sandbox_exec :: "'w env \<Rightarrow> 'w state \<Rightarrow> request \<Rightarrow> response \<times> 'w state" where
  "post_sandbox_exec env s req =
     (case req_body req of
        BodyUndefined \<Rightarrow>
          (\<lparr>status = 500, json = ErrorJson destructure_error, set_cookies = []\<rparr>, s)
      | BodyObject None \<Rightarrow>
          (\<lparr>status = 400, json = ErrorJson ''Command not provided'', set_cookies = []\<rparr>, s)
      | BodyObject (Some command) \<Rightarrow>
          if command = [] then
            (\<lparr>status = 400, json = ErrorJson ''Command not provided'', set_cookies = []\<rparr>, s)
          else
            (case executeKubectlCommand env s (cookie_text req) command of
               (Inl msg, s1) \<Rightarrow>
                 (\<lparr>status = 500, json = ErrorJson msg, set_cookies = []\<rparr>, s1)
             | (Inr result, s1) \<Rightarrow>
                 (\<lparr>status = 200,
                   json = ExecJson ''Command executed successfully'' command
                            (string_property result ''stdout''),
                   set_cookies = []\<rparr>, s1)))"

definition delete_sandbox :: "'w env \<Rightarrow> 'w state \<Rightarrow> request \<Rightarrow> response \<times> 'w state" where
  "delete_sandbox env s req =
     (case deleteCluster env s (cookie_text req) of
        (Inl msg, s1) \<Rightarrow> (\<lparr>status = 500, json = ErrorJson msg, set_cookies = []\<rparr>, s1)
      | (Inr _, s1) \<Rightarrow>
          (\<lparr>status = 200, json = MessageJson ''Sandbox deleted successfully'',
            set_cookies = [ClearCookie ''sandboxId'']\<rparr>, s1))"

text \<open>
  The routes: the middleware, then the handler when the middleware calls \<^verbatim>\<open>next()\<close>. For a
  request to \<^verbatim>\<open>POST /sandbox\<close> that was admitted, the \<^verbatim>\<open>finish\<close> callback runs after the
  handler has answered, unless the client has closed the connection before: then the
  \<^verbatim>\<open>finish\<close> event does not fire and nothing else removes the lock.
\<close>

definition route_post_sandbox ::
  "'w env \<Rightarrow> 'w state \<Rightarrow> request \<Rightarrow> response \<times> 'w state" where
  "route_post_sandbox env s req =
     (case preventConcurrentRequests s req of
        (Some denied, s1) \<Rightarrow> (denied, s1)
      | (None, s1) \<Rightarrow>
          (case post_sandbox env s1 req of
             (res, s2) \<Rightarrow> (res, if aborted req then s2 else on_finish s2 req)))"

definition route_post_sandbox_exec ::
  "'w env \<Rightarrow> 'w state \<Rightarrow> request \<Rightarrow> response \<times> 'w state" where
  "route_post_sandbox_exec env s req =
     (case validateSandbox env s req of
        (Some rejected, s1) \<Rightarrow> (rejected, s1)
      | (None, s1) \<Rightarrow> post_sandbox_exec env s1 req)"

definition route_delete_sandbox ::
  "'w env \<Rightarrow> 'w state \<Rightarrow> request \<Rightarrow> response \<times> 'w state" where
  "route_delete_sandbox env s req =
     (case validateSandbox env s req of
        (Some rejected, s1) \<Rightarrow> (rejected, s1)
      | (None, s1) \<Rightarrow> delete_sandbox env s1 req)"

subsection \<open>The k3d edition\<close>

text \<open>\<^verbatim>\<open>cleanupExpiredSandboxes\<close>, \<^verbatim>\<open>preventConcurrentRequests\<close> and the three routes read as
  in \<^verbatim>\<open>backend/src/server.js\<close>; they call this edition's functions.\<close>

definition createCluster_k3d ::
  "'w env \<Rightarrow> 'w state \<Rightarrow> string \<Rightarrow> (string + bool) \<times> 'w state" where
  "createCluster_k3d env s sandboxId =
     (case run_execa env s ''k3d''
             [''cluster'', ''create'', sandboxId, ''--api-port'', ''6443'', ''--k3s-arg'',
              ''--disable=traefik@server:0'', ''--wait''] of
        (Inl msg, s1) \<Rightarrow> (Inl (''Failed to create cluster: '' @ msg), s1)
      | (Inr _, s1) \<Rightarrow>
          (case run_execa env (s1\<lparr>world := setTimeout env (world s1) 10000\<rparr>) ''kubectl''
                  [''--context'', ''k3d-'' @ sandboxId, ''wait'', ''--for=condition=Ready'',
                   ''nodes'', ''--all'', ''--timeout=30s''] of
             (Inl msg, s2) \<Rightarrow> (Inl (''Failed to create cluster: '' @ msg), s2)
           | (Inr _, s2) \<Rightarrow>
               (Inr True,
                s2\<lparr>sandboxes :=
                     AList.update sandboxId (date_now env (world s2)) (sandboxes s2)\<rparr>)))"

definition deleteCluster_k3d ::
  "'w env \<Rightarrow> 'w state \<Rightarrow> string \<Rightarrow> (string + unit) \<times> 'w state" where
  "deleteCluster_k3d env s sandboxId =
     (case run_execa env s ''k3d'' [''cluster'', ''delete'', sandboxId] of
        (Inl msg, s1) \<Rightarrow> (Inl (''Failed to delete cluster: '' @ msg), s1)
      | (Inr _, s1) \<Rightarrow> (Inr (), s1\<lparr>sandboxes := AList.delete sandboxId (sandboxes s1)\<rparr>))"

fun cleanup_loop_k3d ::
  "'w env \<Rightarrow> int \<Rightarrow> (string \<times> int) list \<Rightarrow> 'w state \<Rightarrow> 'w state" where
  "cleanup_loop_k3d env now [] s = s"
| "cleanup_loop_k3d env now ((sandboxId, createdAt) # rest) s =
     (if now - createdAt > SANDBOX_LIFETIME_MS then
        (case deleteCluster_k3d env s sandboxId of
           (Inr _, s1) \<Rightarrow>
             cleanup_loop_k3d env now rest
               (s1\<lparr>sandboxes := AList.delete sandboxId (sandboxes s1)\<rparr>)
         | (Inl _, s1) \<Rightarrow> cleanup_loop_k3d env now rest s1)
      else cleanup_loop_k3d env now rest s)"

definition cleanupExpiredSandboxes_k3d :: "'w env \<Rightarrow> 'w state \<Rightarrow> 'w state" where
  "cleanupExpiredSandboxes_k3d env s =
     cleanup_loop_k3d env (date_now env (world s)) (sandboxes s) s"

text \<open>\<^verbatim>\<open>result.stdout.split('\\n').filter((line) => line.includes(sandboxId))\<close>\<close>

definition matching_lines :: "string \<Rightarrow> string \<Rightarrow> string list" where
  "matching_lines stdout sandboxId =
     filter (\<lambda>line. js_includes line sandboxId) (js_split (CHR 0x0A) stdout)"

definition validateSandbox_k3d ::
  "'w env \<Rightarrow> 'w state \<Rightarrow> request \<Rightarrow> response option \<times> 'w state" where
  "validateSandbox_k3d env s req =
     (case cookie_sandboxId req of
        None \<Rightarrow>
          (Some \<lparr>status = 401,
                 json = ErrorJson ''Sandbox not found. Create a new sandbox first.'',
                 set_cookies = []\<rparr>, s)
      | Some sandboxId \<Rightarrow>
          if sandboxId = [] then
            (Some \<lparr>status = 401,
                   json = ErrorJson ''Sandbox not found. Create a new sandbox first.'',
                   set_cookies = []\<rparr>, s)
          else
            (case run_execa env s ''k3d'' [''cluster'', ''list''] of
               (Inr stdout, s1) \<Rightarrow>
                 if length (matching_lines stdout sandboxId) = 0 then
                   (Some \<lparr>status = 404,
                          json = ErrorJson ''Sandbox not found or expired.'',
                          set_cookies = [ClearCookie ''sandboxId'']\<rparr>,
                    s1\<lparr>sandboxes := AList.delete sandboxId (sandboxes s1)\<rparr>)
                 else (None, s1)
             | (Inl _, s1) \<Rightarrow>
                 (Some \<lparr>status = 404,
                        json = ErrorJson ''Sandbox not found or expired.'',
                        set_cookies = [ClearCookie ''sandboxId'']\<rparr>,
                  s1\<lparr>sandboxes := AList.delete sandboxId (sandboxes s1)\<rparr>)))"

definition executeKubectlCommand_k3d ::
  "'w env \<Rightarrow> 'w state \<Rightarrow> string \<Rightarrow> string \<Rightarrow> (string + string) \<times> 'w state" where
  "executeKubectlCommand_k3d env s sandboxId command =
     (let args = js_split CHR '' '' command in
      case run_execa env s ''kubectl'' ([''--context'', ''k3d-'' @ sandboxId] @ args) of
        (Inl msg, s1) \<Rightarrow> (Inl (''Error executing command: '' @ msg), s1)
      | (Inr out, s1) \<Rightarrow> (Inr out, s1))"

definition create_new_k3d ::
  "'w env \<Rightarrow> 'w state \<Rightarrow> cookie_op list \<Rightarrow> response \<times> 'w state" where
  "create_new_k3d env s cleared =
     (case generateId env (world s) of
        (generated, w) \<Rightarrow>
          (let sandboxId = ''sb-'' @ generated in
           case createCluster_k3d env (s\<lparr>world := w\<rparr>) sandboxId of
             (Inl msg, s1) \<Rightarrow>
               (\<lparr>status = 500, json = ErrorJson msg, set_cookies = cleared\<rparr>, s1)
           | (Inr _, s1) \<Rightarrow>
               (\<lparr>status = 200,
                 json = SandboxJson ''Sandbox created successfully'' sandboxId expiresIn,
                 set_cookies =
                   cleared @ [SetCookie ''sandboxId'' sandboxId SANDBOX_LIFETIME_MS]\<rparr>,
                s1)))"

text \<open>When the list succeeds and no line matches, the handler falls through to the creation
  with the cookie and the map untouched; only a rejected list clears them.\<close>

definition post_sandbox_k3d :: "'w env \<Rightarrow> 'w state \<Rightarrow> request \<Rightarrow> response \<times> 'w state" where
  "post_sandbox_k3d env s req =
     (case cookie_sandboxId req of
        None \<Rightarrow> create_new_k3d env s []
      | Some existingSandboxId \<Rightarrow>
          if existingSandboxId = [] then create_new_k3d env s []
          else
            (case run_execa env s ''k3d'' [''cluster'', ''list''] of
               (Inr stdout, s1) \<Rightarrow>
                 if length (matching_lines stdout existingSandboxId) > 0 then
                   (\<lparr>status = 200,
                     json = SandboxJson ''Using existing sandbox'' existingSandboxId expiresIn,
                     set_cookies = []\<rparr>, s1)
                 else create_new_k3d env s1 []
             | (Inl _, s1) \<Rightarrow>
                 create_new_k3d env
                   (s1\<lparr>sandboxes := AList.delete existingSandboxId (sandboxes s1)\<rparr>)
                   [ClearCookie ''sandboxId'']))"

definition post_sandbox_exec_k3d ::
  "'w env \<Rightarrow> 'w state \<Rightarrow> request \<Rightarrow> response \<times> 'w state" where
  "post_sandbox_exec_k3d env s req =
     (case req_body req of
        BodyUndefined \<Rightarrow>
          (\<lparr>status = 500, json = ErrorJson destructure_error, set_cookies = []\<rparr>, s)
      | BodyObject None \<Rightarrow>
          (\<lparr>status = 400, json = ErrorJson ''Command not provided'', set_cookies = []\<rparr>, s)
      | BodyObject (Some command) \<Rightarrow>
          if command = [] then
            (\<lparr>status = 400, json = ErrorJson ''Command not provided'', set_cookies = []\<rparr>, s)
          else
            (case executeKubectlCommand_k3d env s (cookie_text req) command of
               (Inl msg, s1) \<Rightarrow>
                 (\<lparr>status = 500, json = ErrorJson msg, set_cookies = []\<rparr>, s1)
             | (Inr output, s1) \<Rightarrow>
                 (\<lparr>status = 200,
                   json = ExecJson ''Command executed successfully'' command (JString output),
                   set_cookies = []\<rparr>, s1)))"

definition delete_sandbox_k3d ::
  "'w env \<Rightarrow> 'w state \<Rightarrow> request \<Rightarrow> response \<times> 'w state" where
  "delete_sandbox_k3d env s req =
     (case deleteCluster_k3d env s (cookie_text req) of
        (Inl msg, s1) \<Rightarrow> (\<lparr>status = 500, json = ErrorJson msg, set_cookies = []\<rparr>, s1)
      | (Inr _, s1) \<Rightarrow>
          (\<lparr>status = 200, json = MessageJson ''Sandbox deleted successfully'',
            set_cookies = [ClearCookie ''sandboxId'']\<rparr>, s1))"

definition route_post_sandbox_k3d ::
  "'w env \<Rightarrow> 'w state \<Rightarrow> request \<Rightarrow> response \<times> 'w state" where
  "route_post_sandbox_k3d env s req =
     (case preventConcurrentRequests s req of
        (Some denied, s1) \<Rightarrow> (denied, s1)
      | (None, s1) \<Rightarrow>
          (case post_sandbox_k3d env s1 req of
             (res, s2) \<Rightarrow> (res, if aborted req then s2 else on_finish s2 req)))"

definition route_post_sandbox_exec_k3d ::
  "'w env \<Rightarrow> 'w state \<Rightarrow> request \<Rightarrow> response \<times> 'w state" where
  "route_post_sandbox_exec_k3d env s req =
     (case validateSandbox_k3d env s req of
        (Some rejected, s1) \<Rightarrow> (rejected, s1)
      | (None, s1) \<Rightarrow> post_sandbox_exec_k3d env s1 req)"

definition route_delete_sandbox_k3d ::
  "'w env \<Rightarrow> 'w state \<Rightarrow> request \<Rightarrow> response \<times> 'w state" where
  "route_delete_sandbox_k3d env s req =
     (case validateSandbox_k3d env s req of
        (Some rejected, s1) \<Rightarrow> (rejected, s1)
      | (None, s1) \<Rightarrow> delete_sandbox_k3d env s1 req)"

subsection \<open>Environments for concrete runs\<close>

text \<open>
  A scripted environment has no state of its own: \<^verbatim>\<open>execa\<close> answers from the command
  alone, the clock shows one time, the generator yields one id, the file system and the
  timer always succeed.
\<close>

definition scripted ::
  "(string \<Rightarrow> string list \<Rightarrow> string + string) \<Rightarrow> int \<Rightarrow> string \<Rightarrow> unit env" where
  "scripted answer now generated =
     \<lparr>execa = (\<lambda>w file args. (answer file args, w)),
      date_now = (\<lambda>w. now),
      generateId = (\<lambda>w. (generated, w)),
      fs_writeFile = (\<lambda>w path text. (Inr (), w)),
      fs_unlink = (\<lambda>w path. (Inr (), w)),
      setTimeout = (\<lambda>w ms. w)\<rparr>"

text \<open>
  \<open>k3d_host\<close> answers as a host on which k3d runs one cluster, \<^verbatim>\<open>sb-abc1234567\<close>, and every
  command succeeds; \<open>failing word\<close> is the same host on which every command that is
  \<open>word\<close> or has \<open>word\<close> among its arguments is rejected.
\<close>

definition list_output :: string where
  "list_output =
     ''NAME            SERVERS   AGENTS   LOADBALANCER'' @ [CHR 0x0A]
     @ ''sb-abc1234567   1/1       0/0      true''"

definition k3d_host :: "string \<Rightarrow> string list \<Rightarrow> string + string" where
  "k3d_host file args =
     (if file = ''k3d'' \<and> take 2 args = [''cluster'', ''list''] then Inr list_output
      else if file = ''kubectl'' \<and> drop 2 args = [''get'', ''pods'']
        then Inr ''No resources found in default namespace.''
      else Inr [])"

definition failing :: "string \<Rightarrow> string \<Rightarrow> string list \<Rightarrow> string + string" where
  "failing word file args =
     (if file = word \<or> word \<in> set args then Inl ''Command failed with exit code 1''
      else k3d_host file args)"

definition start :: "unit state" where
  "start = \<lparr>sandboxes = [], creationLocks = [], world = (), calls = []\<rparr>"

text \<open>\<open>client cookie command\<close> is a request from \<^verbatim>\<open>10.0.0.1\<close> with a JSON body, whose client
  waits for the answer.\<close>

definition client :: "string option \<Rightarrow> string option \<Rightarrow> request" where
  "client cookie command =
     \<lparr>ip = ''10.0.0.1'', cookie_sandboxId = cookie, req_body = BodyObject command,
      aborted = False\<rparr>"

definition one_sandbox :: "unit state" where
  "one_sandbox =
     \<lparr>sandboxes = [(''sb-abc1234567'', 0)], creationLocks = [], world = (), calls = []\<rparr>"

text \<open>The states after one successful creation from \<open>start\<close> at time 1000, in each
  edition.\<close>

definition after_creation :: "unit state" where
  "after_creation =
     \<lparr>sandboxes = [(''sb-abc1234567'', 1000)], creationLocks = [], world = (),
      calls = [(''kind'', [''create'', ''cluster'', ''--config'',
                          ''/tmp/sb-abc1234567-config.yaml''])]\<rparr>"

definition after_creation_k3d :: "unit state" where
  "after_creation_k3d =
     \<lparr>sandboxes = [(''sb-abc1234567'', 1000)], creationLocks = [], world = (),
      calls = [(''k3d'', [''cluster'', ''create'', ''sb-abc1234567'', ''--api-port'', ''6443'',
                         ''--k3s-arg'', ''--disable=traefik@server:0'', ''--wait'']),
               (''kubectl'', [''--context'', ''k3d-sb-abc1234567'', ''wait'',
                         ''--for=condition=Ready'', ''nodes'', ''--all'', ''--timeout=30s''])]\<rparr>"

text \<open>A state in which the client \<^verbatim>\<open>10.0.0.1\<close> holds the creation lock.\<close>

definition locked :: "unit state" where
  "locked =
     \<lparr>sandboxes = [], creationLocks = [(''10.0.0.1'', True)], world = (), calls = []\<rparr>"

subsection \<open>Vocabulary of the properties\<close>

text \<open>The answer of \<^verbatim>\<open>preventConcurrentRequests\<close> to a client that holds the lock, and the
  responses that reuse a sandbox.\<close>

definition denied :: response where
  "denied =
     \<lparr>status = 429,
      json = ErrorJson ''A sandbox is already being created for this IP. Please wait.'',
      set_cookies = []\<rparr>"

definition reused :: "response \<Rightarrow> bool" where
  "reused res =
     (case json res of
        SandboxJson message sid expires \<Rightarrow> message = ''Using existing sandbox''
      | ErrorJson e \<Rightarrow> False
      | ExecJson message command out \<Rightarrow> False
      | MessageJson message \<Rightarrow> False)"


text \<open>The driver calls that create and delete a cluster (in either edition), and the ids
  the sweeper finds expired at time \<open>now\<close>, in the order of the map.\<close>

definition is_create_call :: "string \<times> string list \<Rightarrow> bool" where
  "is_create_call c =
     ((fst c = ''kind'' \<and> take 2 (snd c) = [''create'', ''cluster''])
      \<or> (fst c = ''k3d'' \<and> take 2 (snd c) = [''cluster'', ''create'']))"

definition is_delete_call :: "string \<times> string list \<Rightarrow> bool" where
  "is_delete_call c =
     ((fst c = ''kind'' \<and> take 2 (snd c) = [''delete'', ''cluster''])
      \<or> (fst c = ''k3d'' \<and> take 2 (snd c) = [''cluster'', ''delete'']))"

definition delete_call :: "string \<Rightarrow> string \<times> string list" where
  "delete_call sid = (''kind'', [''delete'', ''cluster'', ''--name'', sid])"

definition delete_call_k3d :: "string \<Rightarrow> string \<times> string list" where
  "delete_call_k3d sid = (''k3d'', [''cluster'', ''delete'', sid])"

definition expired_ids :: "int \<Rightarrow> (string \<times> int) list \<Rightarrow> string list" where
  "expired_ids now entries =
     map fst (filter (\<lambda>e. now - snd e > SANDBOX_LIFETIME_MS) entries)"

text \<open>The id a request to \<^verbatim>\<open>POST /sandbox\<close> generates in state \<open>s\<close> when it creates a
  cluster (\<^verbatim>\<open>'sb-' + generateId()\<close>), the state after generating it, and the argument lists of
  the calls that \<^verbatim>\<open>createCluster\<close> makes.\<close>

definition new_id :: "'w env \<Rightarrow> 'w state \<Rightarrow> string" where
  "new_id env s = ''sb-'' @ fst (generateId env (world s))"

definition after_id :: "'w env \<Rightarrow> 'w state \<Rightarrow> 'w state" where
  "after_id env s = s\<lparr>world := snd (generateId env (world s))\<rparr>"

definition config_path :: "string \<Rightarrow> string" where
  "config_path sid = ''/tmp/'' @ sid @ ''-config.yaml''"

definition kind_create_args :: "string \<Rightarrow> string list" where
  "kind_create_args sid = [''create'', ''cluster'', ''--config'', config_path sid]"

definition k3d_create_args :: "string \<Rightarrow> string list" where
  "k3d_create_args sid =
     [''cluster'', ''create'', sid, ''--api-port'', ''6443'', ''--k3s-arg'',
      ''--disable=traefik@server:0'', ''--wait'']"

definition kubectl_wait_args :: "string \<Rightarrow> string list" where
  "kubectl_wait_args sid =
     [''--context'', ''k3d-'' @ sid, ''wait'', ''--for=condition=Ready'', ''nodes'', ''--all'',
      ''--timeout=30s'']"

text \<open>
  Requests interleave at every \<^verbatim>\<open>await\<close>. For the creation lock, a run of the server is a
  sequence of steps on the state and the list of admitted requests to \<^verbatim>\<open>POST /sandbox\<close> that
  have not finished: a request arrives and the middleware admits or refuses it; some
  handler, the sweeper or anything else runs a piece of code that leaves the locks as they
  are; the response of an admitted request finishes and its callback runs.
\<close>

inductive reachable :: "'w state \<times> request list \<Rightarrow> bool" where
  init: "creationLocks s = [] \<Longrightarrow> reachable (s, [])"
| granted: "reachable (s, flight) \<Longrightarrow> preventConcurrentRequests s req = (None, s') \<Longrightarrow>
     reachable (s', flight @ [req])"
| refused: "reachable (s, flight) \<Longrightarrow> preventConcurrentRequests s req = (Some res, s') \<Longrightarrow>
     reachable (s', flight)"
| work: "reachable (s, flight) \<Longrightarrow> creationLocks s' = creationLocks s \<Longrightarrow>
     reachable (s', flight)"
| finish: "reachable (s, flight) \<Longrightarrow> req \<in> set flight \<Longrightarrow>
     reachable (on_finish s req, remove1 req flight)"

section \<open>Frame lemmas\<close>

lemma deleteCluster_calls:
  assumes "deleteCluster env s sid = (r, s')"
  shows "calls s' = calls s @ [delete_call sid]"
  using assms
  by (auto simp: deleteCluster_def run_execa_def delete_call_def split: prod.splits sum.splits)

lemma deleteCluster_k3d_calls:
  assumes "deleteCluster_k3d env s sid = (r, s')"
  shows "calls s' = calls s @ [delete_call_k3d sid]"
  using assms
  by (auto simp: deleteCluster_k3d_def run_execa_def delete_call_k3d_def
      split: prod.splits sum.splits)

subsection \<open>The sweeper's loop\<close>

lemma cleanup_loop_calls:
  "calls (cleanup_loop env now xs s) = calls s @ map delete_call (expired_ids now xs)"
proof (induction xs arbitrary: s)
  case Nil
  show ?case by (simp add: expired_ids_def)
next
  case (Cons x xs)
  obtain sid t where x: "x = (sid, t)" by (cases x)
  obtain r s1 where d: "deleteCluster env s sid = (r, s1)" by (cases "deleteCluster env s sid")
  have c: "calls s1 = calls s @ [delete_call sid]" using deleteCluster_calls[OF d] .
  show ?case
  proof (cases "now - t > SANDBOX_LIFETIME_MS")
    case True
    then show ?thesis using x d c Cons.IH
      by (cases r) (simp_all add: expired_ids_def)
  next
    case False
    then show ?thesis using x Cons.IH by (simp add: expired_ids_def)
  qed
qed

lemma cleanup_loop_keys:
  "fst ` set (sandboxes (cleanup_loop env now xs s)) \<subseteq> fst ` set (sandboxes s)"
proof (induction xs arbitrary: s)
  case Nil
  show ?case by simp
next
  case (Cons x xs)
  obtain sid t where x: "x = (sid, t)" by (cases x)
  obtain r s1 where d: "deleteCluster env s sid = (r, s1)" by (cases "deleteCluster env s sid")
  have k: "fst ` set (sandboxes s1) \<subseteq> fst ` set (sandboxes s)"
    using d by (auto simp: deleteCluster_def run_execa_def AList.delete_eq split: prod.splits sum.splits)
  have k': "fst ` set (AList.delete sid (sandboxes s1)) \<subseteq> fst ` set (sandboxes s)"
    using k by (auto simp: AList.delete_eq)
  show ?case
  proof (cases "now - t > SANDBOX_LIFETIME_MS")
    case True
    show ?thesis
    proof (cases r)
      case (Inl e)
      have "fst ` set (sandboxes (cleanup_loop env now xs s1)) \<subseteq> fst ` set (sandboxes s1)"
        using Cons.IH .
      then show ?thesis using x d True Inl k by auto
    next
      case (Inr u)
      have "fst ` set (sandboxes (cleanup_loop env now xs
                (s1\<lparr>sandboxes := AList.delete sid (sandboxes s1)\<rparr>)))
             \<subseteq> fst ` set (AList.delete sid (sandboxes s1))"
        using Cons.IH[of "s1\<lparr>sandboxes := AList.delete sid (sandboxes s1)\<rparr>"] by simp
      then show ?thesis using x d True Inr k' by auto
    qed
  next
    case False
    then show ?thesis using x Cons.IH by simp
  qed
qed

lemma cleanup_loop_kept:
  "k \<notin> set (expired_ids now xs) \<Longrightarrow>
     map_of (sandboxes (cleanup_loop env now xs s)) k = map_of (sandboxes s) k"
proof (induction xs arbitrary: s)
  case Nil
  show ?case by simp
next
  case (Cons x xs)
  obtain sid t where x: "x = (sid, t)" by (cases x)
  obtain r s1 where d: "deleteCluster env s sid = (r, s1)" by (cases "deleteCluster env s sid")
  have rest: "k \<notin> set (expired_ids now xs)"
    using Cons.prems by (auto simp: expired_ids_def)
  show ?case
  proof (cases "now - t > SANDBOX_LIFETIME_MS")
    case True
    then have ne: "sid \<noteq> k" using Cons.prems x by (auto simp: expired_ids_def)
    have m1: "map_of (sandboxes s1) k = map_of (sandboxes s) k"
      using d ne
      by (auto simp: deleteCluster_def run_execa_def delete_conv split: prod.splits sum.splits)
    have m2: "map_of (AList.delete sid (sandboxes s1)) k = map_of (sandboxes s) k"
      using m1 ne by (simp add: delete_conv)
    show ?thesis
    proof (cases r)
      case (Inl e)
      then show ?thesis using x d True m1 Cons.IH[OF rest, of s1] by simp
    next
      case (Inr u)
      then show ?thesis
        using x d True m2
          Cons.IH[OF rest, of "s1\<lparr>sandboxes := AList.delete sid (sandboxes s1)\<rparr>"]
        by simp
    qed
  next
    case False
    then show ?thesis using x Cons.IH[OF rest] by simp
  qed
qed

lemma cleanup_loop_removed:
  assumes ok: "\<forall>w. \<not> isl (fst (execa env w ''kind'' [''delete'', ''cluster'', ''--name'', k]))"
  shows "k \<in> set (expired_ids now xs) \<Longrightarrow>
     map_of (sandboxes (cleanup_loop env now xs s)) k = None"
proof (induction xs arbitrary: s)
  case Nil
  then show ?case by (simp add: expired_ids_def)
next
  case (Cons x xs)
  obtain sid t where x: "x = (sid, t)" by (cases x)
  obtain r s1 where d: "deleteCluster env s sid = (r, s1)" by (cases "deleteCluster env s sid")
  show ?case
  proof (cases "now - t > SANDBOX_LIFETIME_MS")
    case True
    show ?thesis
    proof (cases "sid = k")
      case True
      have "\<not> isl (fst (execa env (world s) ''kind'' [''delete'', ''cluster'', ''--name'', k]))"
        using ok by blast
      then obtain u where r: "r = Inr u"
        using d True
        by (auto simp: deleteCluster_def run_execa_def split: prod.splits sum.splits)
      let ?s2 = "s1\<lparr>sandboxes := AList.delete sid (sandboxes s1)\<rparr>"
      have "k \<notin> fst ` set (sandboxes ?s2)" using True by (simp add: AList.delete_eq image_iff)
      then have "k \<notin> fst ` set (sandboxes (cleanup_loop env now xs ?s2))"
        using cleanup_loop_keys[of env now xs ?s2] by blast
      then have "map_of (sandboxes (cleanup_loop env now xs ?s2)) k = None"
        by (simp add: map_of_eq_None_iff)
      then show ?thesis using x d r \<open>now - t > SANDBOX_LIFETIME_MS\<close> by simp
    next
      case False
      then have rest: "k \<in> set (expired_ids now xs)"
        using Cons.prems x by (force simp: expired_ids_def split: if_splits)
      show ?thesis
        using x d True Cons.IH[OF rest] by (cases r) simp_all
    qed
  next
    case False
    then have rest: "k \<in> set (expired_ids now xs)"
      using Cons.prems x by (force simp: expired_ids_def split: if_splits)
    then show ?thesis using x False Cons.IH[OF rest] by simp
  qed
qed

lemma cleanup_loop_k3d_calls:
  "calls (cleanup_loop_k3d env now xs s) = calls s @ map delete_call_k3d (expired_ids now xs)"
proof (induction xs arbitrary: s)
  case Nil
  show ?case by (simp add: expired_ids_def)
next
  case (Cons x xs)
  obtain sid t where x: "x = (sid, t)" by (cases x)
  obtain r s1 where d: "deleteCluster_k3d env s sid = (r, s1)" by (cases "deleteCluster_k3d env s sid")
  have c: "calls s1 = calls s @ [delete_call_k3d sid]" using deleteCluster_k3d_calls[OF d] .
  show ?case
  proof (cases "now - t > SANDBOX_LIFETIME_MS")
    case True
    then show ?thesis using x d c Cons.IH
      by (cases r) (simp_all add: expired_ids_def)
  next
    case False
    then show ?thesis using x Cons.IH by (simp add: expired_ids_def)
  qed
qed

lemma cleanup_loop_k3d_keys:
  "fst ` set (sandboxes (cleanup_loop_k3d env now xs s)) \<subseteq> fst ` set (sandboxes s)"
proof (induction xs arbitrary: s)
  case Nil
  show ?case by simp
next
  case (Cons x xs)
  obtain sid t where x: "x = (sid, t)" by (cases x)
  obtain r s1 where d: "deleteCluster_k3d env s sid = (r, s1)" by (cases "deleteCluster_k3d env s sid")
  have k: "fst ` set (sandboxes s1) \<subseteq> fst ` set (sandboxes s)"
    using d by (auto simp: deleteCluster_k3d_def run_execa_def AList.delete_eq split: prod.splits sum.splits)
  have k': "fst ` set (AList.delete sid (sandboxes s1)) \<subseteq> fst ` set (sandboxes s)"
    using k by (auto simp: AList.delete_eq)
  show ?case
  proof (cases "now - t > SANDBOX_LIFETIME_MS")
    case True
    show ?thesis
    proof (cases r)
      case (Inl e)
      have "fst ` set (sandboxes (cleanup_loop_k3d env now xs s1)) \<subseteq> fst ` set (sandboxes s1)"
        using Cons.IH .
      then show ?thesis using x d True Inl k by auto
    next
      case (Inr u)
      have "fst ` set (sandboxes (cleanup_loop_k3d env now xs
                (s1\<lparr>sandboxes := AList.delete sid (sandboxes s1)\<rparr>)))
             \<subseteq> fst ` set (AList.delete sid (sandboxes s1))"
        using Cons.IH[of "s1\<lparr>sandboxes := AList.delete sid (sandboxes s1)\<rparr>"] by simp
      then show ?thesis using x d True Inr k' by auto
    qed
  next
    case False
    then show ?thesis using x Cons.IH by simp
  qed
qed

lemma cleanup_loop_k3d_kept:
  "k \<notin> set (expired_ids now xs) \<Longrightarrow>
     map_of (sandboxes (cleanup_loop_k3d env now xs s)) k = map_of (sandboxes s) k"
proof (induction xs arbitrary: s)
  case Nil
  show ?case by simp
next
  case (Cons x xs)
  obtain sid t where x: "x = (sid, t)" by (cases x)
  obtain r s1 where d: "deleteCluster_k3d env s sid = (r, s1)" by (cases "deleteCluster_k3d env s sid")
  have rest: "k \<notin> set (expired_ids now xs)"
    using Cons.prems by (auto simp: expired_ids_def)
  show ?case
  proof (cases "now - t > SANDBOX_LIFETIME_MS")
    case True
    then have ne: "sid \<noteq> k" using Cons.prems x by (auto simp: expired_ids_def)
    have m1: "map_of (sandboxes s1) k = map_of (sandboxes s) k"
      using d ne
      by (auto simp: deleteCluster_k3d_def run_execa_def delete_conv split: prod.splits sum.splits)
    have m2: "map_of (AList.delete sid (sandboxes s1)) k = map_of (sandboxes s) k"
      using m1 ne by (simp add: delete_conv)
    show ?thesis
    proof (cases r)
      case (Inl e)
      then show ?thesis using x d True m1 Cons.IH[OF rest, of s1] by simp
    next
      case (Inr u)
      then show ?thesis
        using x d True m2
          Cons.IH[OF rest, of "s1\<lparr>sandboxes := AList.delete sid (sandboxes s1)\<rparr>"]
        by simp
    qed
  next
    case False
    then show ?thesis using x Cons.IH[OF rest] by simp
  qed
qed

lemma cleanup_loop_k3d_removed:
  assumes ok: "\<forall>w. \<not> isl (fst (execa env w ''k3d'' [''cluster'', ''delete'', k]))"
  shows "k \<in> set (expired_ids now xs) \<Longrightarrow>
     map_of (sandboxes (cleanup_loop_k3d env now xs s)) k = None"
proof (induction xs arbitrary: s)
  case Nil
  then show ?case by (simp add: expired_ids_def)
next
  case (Cons x xs)
  obtain sid t where x: "x = (sid, t)" by (cases x)
  obtain r s1 where d: "deleteCluster_k3d env s sid = (r, s1)" by (cases "deleteCluster_k3d env s sid")
  show ?case
  proof (cases "now - t > SANDBOX_LIFETIME_MS")
    case True
    show ?thesis
    proof (cases "sid = k")
      case True
      have "\<not> isl (fst (execa env (world s) ''k3d'' [''cluster'', ''delete'', k]))"
        using ok by blast
      then obtain u where r: "r = Inr u"
        using d True
        by (auto simp: deleteCluster_k3d_def run_execa_def split: prod.splits sum.splits)
      let ?s2 = "s1\<lparr>sandboxes := AList.delete sid (sandboxes s1)\<rparr>"
      have "k \<notin> fst ` set (sandboxes ?s2)" using True by (simp add: AList.delete_eq image_iff)
      then have "k \<notin> fst ` set (sandboxes (cleanup_loop_k3d env now xs ?s2))"
        using cleanup_loop_k3d_keys[of env now xs ?s2] by blast
      then have "map_of (sandboxes (cleanup_loop_k3d env now xs ?s2)) k = None"
        by (simp add: map_of_eq_None_iff)
      then show ?thesis using x d r \<open>now - t > SANDBOX_LIFETIME_MS\<close> by simp
    next
      case False
      then have rest: "k \<in> set (expired_ids now xs)"
        using Cons.prems x by (force simp: expired_ids_def split: if_splits)
      show ?thesis
        using x d True Cons.IH[OF rest] by (cases r) simp_all
    qed
  next
    case False
    then have rest: "k \<in> set (expired_ids now xs)"
      using Cons.prems x by (force simp: expired_ids_def split: if_splits)
    then show ?thesis using x False Cons.IH[OF rest] by simp
  qed
qed

section \<open>The expiry sweeper\<close>

text \<open>
  C3, as the code has it. Let the map hold one entry for \<open>sid\<close>, created at \<open>T\<close>, and let the
  sweeper run when the clock shows \<open>now\<close>. The test of the loop is
  \<^verbatim>\<open>now - createdAt > SANDBOX_LIFETIME_MS\<close>, so: when \<open>now \<le> T + L\<close> the run leaves the entry
  as it is and issues no driver deletion for \<open>sid\<close>; when \<open>now > T + L\<close> the run issues the
  driver deletion for \<open>sid\<close>, and when the driver accepts that deletion the entry is gone
  after the run. Both editions.
\<close>

theorem sweeper_deletes_only_after_lifetime:
  assumes "distinct (map fst (sandboxes s))" and "map_of (sandboxes s) sid = Some T"
  shows
    "(date_now env (world s) \<le> T + SANDBOX_LIFETIME_MS \<longrightarrow>
        map_of (sandboxes (cleanupExpiredSandboxes env s)) sid = Some T
        \<and> delete_call sid \<notin> set (drop (length (calls s)) (calls (cleanupExpiredSandboxes env s)))
        \<and> map_of (sandboxes (cleanupExpiredSandboxes_k3d env s)) sid = Some T
        \<and> delete_call_k3d sid
             \<notin> set (drop (length (calls s)) (calls (cleanupExpiredSandboxes_k3d env s))))
     \<and> (date_now env (world s) > T + SANDBOX_LIFETIME_MS \<longrightarrow>
        delete_call sid \<in> set (drop (length (calls s)) (calls (cleanupExpiredSandboxes env s)))
        \<and> ((\<forall>w. \<not> isl (fst (execa env w ''kind'' [''delete'', ''cluster'', ''--name'', sid])))
             \<longrightarrow> map_of (sandboxes (cleanupExpiredSandboxes env s)) sid = None)
        \<and> delete_call_k3d sid
             \<in> set (drop (length (calls s)) (calls (cleanupExpiredSandboxes_k3d env s)))
        \<and> ((\<forall>w. \<not> isl (fst (execa env w ''k3d'' [''cluster'', ''delete'', sid])))
             \<longrightarrow> map_of (sandboxes (cleanupExpiredSandboxes_k3d env s)) sid = None))"
proof -
  let ?now = "date_now env (world s)"
  have entry: "(sid, T) \<in> set (sandboxes s)"
    using assms(2) by (rule map_of_SomeD)
  have only: "\<And>t. (sid, t) \<in> set (sandboxes s) \<Longrightarrow> t = T"
    using assms by (metis map_of_is_SomeI option.inject)
  have young: "?now \<le> T + SANDBOX_LIFETIME_MS \<Longrightarrow> sid \<notin> set (expired_ids ?now (sandboxes s))"
    using only by (auto simp: expired_ids_def)
  have old: "?now > T + SANDBOX_LIFETIME_MS \<Longrightarrow> sid \<in> set (expired_ids ?now (sandboxes s))"
    using entry by (force simp: expired_ids_def)
  have c1: "drop (length (calls s)) (calls (cleanupExpiredSandboxes env s))
              = map delete_call (expired_ids ?now (sandboxes s))"
    by (simp add: cleanupExpiredSandboxes_def cleanup_loop_calls)
  have c2: "drop (length (calls s)) (calls (cleanupExpiredSandboxes_k3d env s))
              = map delete_call_k3d (expired_ids ?now (sandboxes s))"
    by (simp add: cleanupExpiredSandboxes_k3d_def cleanup_loop_k3d_calls)
  have inj1: "\<And>xs. delete_call sid \<in> set (map delete_call xs) \<longleftrightarrow> sid \<in> set xs"
    by (auto simp: delete_call_def)
  have inj2: "\<And>xs. delete_call_k3d sid \<in> set (map delete_call_k3d xs) \<longleftrightarrow> sid \<in> set xs"
    by (auto simp: delete_call_k3d_def)
  show ?thesis
    unfolding c1 c2 inj1 inj2
    using young old cleanup_loop_kept[of sid ?now "sandboxes s" env s]
      cleanup_loop_k3d_kept[of sid ?now "sandboxes s" env s]
      cleanup_loop_removed[of env sid ?now "sandboxes s" s]
      cleanup_loop_k3d_removed[of env sid ?now "sandboxes s" s] assms(2)
    by (simp add: cleanupExpiredSandboxes_def cleanupExpiredSandboxes_k3d_def)
qed

text \<open>The theorem at one entry created at time 0: a run at 3600001 ms removes it, a run at
  3600000 ms keeps it.\<close>

theorem sweeper_deletes_only_after_lifetime_witness:
  "map_of (sandboxes (cleanupExpiredSandboxes (scripted k3d_host 3600001 ''abc1234567'') one_sandbox))
       ''sb-abc1234567'' = None
   \<and> map_of (sandboxes (cleanupExpiredSandboxes_k3d (scripted k3d_host 3600001 ''abc1234567'') one_sandbox))
       ''sb-abc1234567'' = None
   \<and> map_of (sandboxes (cleanupExpiredSandboxes (scripted k3d_host 3600000 ''abc1234567'') one_sandbox))
       ''sb-abc1234567'' = Some 0
   \<and> map_of (sandboxes (cleanupExpiredSandboxes_k3d (scripted k3d_host 3600000 ''abc1234567'') one_sandbox))
       ''sb-abc1234567'' = Some 0"
  using sweeper_deletes_only_after_lifetime
          [of one_sandbox "''sb-abc1234567''" 0 "scripted k3d_host 3600001 ''abc1234567''"]
        sweeper_deletes_only_after_lifetime
          [of one_sandbox "''sb-abc1234567''" 0 "scripted k3d_host 3600000 ''abc1234567''"]
  by (simp add: one_sandbox_def scripted_def k3d_host_def SANDBOX_LIFETIME_MS_def)

text \<open>
  C3 as stated makes an entry eligible from \<open>now = T + L\<close> on. A run at exactly
  \<open>T + L = 3600000\<close>, on a host whose driver accepts every command, changes nothing: no
  driver call, the entry stays.
\<close>

theorem sweeper_at_lifetime_counterexample:
  "date_now (scripted k3d_host 3600000 ''abc1234567'') (world one_sandbox)
      \<ge> 0 + SANDBOX_LIFETIME_MS
   \<and> map_of (sandboxes one_sandbox) ''sb-abc1234567'' = Some 0
   \<and> cleanupExpiredSandboxes (scripted k3d_host 3600000 ''abc1234567'') one_sandbox = one_sandbox
   \<and> cleanupExpiredSandboxes_k3d (scripted k3d_host 3600000 ''abc1234567'') one_sandbox
       = one_sandbox"
  by (simp add: one_sandbox_def scripted_def cleanupExpiredSandboxes_def
      cleanupExpiredSandboxes_k3d_def SANDBOX_LIFETIME_MS_def)

section \<open>Creating a sandbox\<close>

subsection \<open>What \<^verbatim>\<open>createCluster\<close> and the handler of \<^verbatim>\<open>POST /sandbox\<close> do to the state\<close>

lemma createCluster_Inl:
  assumes "createCluster env s sid = (Inl e, s')"
  shows "sandboxes s' = sandboxes s \<and> creationLocks s' = creationLocks s
         \<and> (\<exists>m. e = ''Failed to create cluster: '' @ m)"
  using assms
  by (auto simp: createCluster_def Let_def run_execa_def split: prod.splits sum.splits)

lemma createCluster_k3d_Inl:
  assumes "createCluster_k3d env s sid = (Inl e, s')"
  shows "sandboxes s' = sandboxes s \<and> creationLocks s' = creationLocks s
         \<and> (\<exists>m. e = ''Failed to create cluster: '' @ m)"
  using assms
  by (auto simp: createCluster_k3d_def Let_def run_execa_def split: prod.splits sum.splits)

lemma createCluster_Inr:
  assumes "createCluster env s sid = (Inr b, s')"
  shows "sandboxes s' = AList.update sid (date_now env (world s')) (sandboxes s)
         \<and> creationLocks s' = creationLocks s"
  using assms
  by (auto simp: createCluster_def Let_def run_execa_def split: prod.splits sum.splits)

lemma createCluster_k3d_Inr:
  assumes "createCluster_k3d env s sid = (Inr b, s')"
  shows "sandboxes s' = AList.update sid (date_now env (world s')) (sandboxes s)
         \<and> creationLocks s' = creationLocks s"
  using assms
  by (auto simp: createCluster_k3d_def Let_def run_execa_def split: prod.splits sum.splits)

lemma createCluster_steps:
  "isl (fst (createCluster env s sid)) \<longleftrightarrow>
     isl (fst (fs_writeFile env (world s) (''/tmp/'' @ sid @ ''-config.yaml'') (config_yaml sid)))
     \<or> isl (fst (execa env
            (snd (fs_writeFile env (world s) (''/tmp/'' @ sid @ ''-config.yaml'') (config_yaml sid)))
            ''kind'' [''create'', ''cluster'', ''--config'', ''/tmp/'' @ sid @ ''-config.yaml'']))
     \<or> isl (fst (fs_unlink env
            (snd (execa env
               (snd (fs_writeFile env (world s) (''/tmp/'' @ sid @ ''-config.yaml'')
                      (config_yaml sid)))
               ''kind'' [''create'', ''cluster'', ''--config'', ''/tmp/'' @ sid @ ''-config.yaml'']))
            (''/tmp/'' @ sid @ ''-config.yaml'')))"
  by (auto simp: createCluster_def Let_def run_execa_def split: prod.splits sum.splits)

lemma createCluster_k3d_steps:
  "isl (fst (createCluster_k3d env s sid)) \<longleftrightarrow>
     isl (fst (execa env (world s) ''k3d''
            [''cluster'', ''create'', sid, ''--api-port'', ''6443'', ''--k3s-arg'',
             ''--disable=traefik@server:0'', ''--wait'']))
     \<or> isl (fst (execa env
            (setTimeout env
               (snd (execa env (world s) ''k3d''
                  [''cluster'', ''create'', sid, ''--api-port'', ''6443'', ''--k3s-arg'',
                   ''--disable=traefik@server:0'', ''--wait''])) 10000)
            ''kubectl''
            [''--context'', ''k3d-'' @ sid, ''wait'', ''--for=condition=Ready'',
             ''nodes'', ''--all'', ''--timeout=30s'']))"
  by (auto simp: createCluster_k3d_def Let_def run_execa_def split: prod.splits sum.splits)

lemma create_new_cases:
  assumes "create_new env s cl = (res, s')"
  shows "(status res = 500 \<and> (\<exists>m. json res = ErrorJson (''Failed to create cluster: '' @ m))
            \<and> set_cookies res = cl \<and> sandboxes s' = sandboxes s)
         \<or> (status res = 200
            \<and> (\<exists>sid. json res = SandboxJson ''Sandbox created successfully'' sid expiresIn
                  \<and> set_cookies res = cl @ [SetCookie ''sandboxId'' sid SANDBOX_LIFETIME_MS]
                  \<and> sandboxes s' = AList.update sid (date_now env (world s')) (sandboxes s)))"
  using assms
  by (auto simp: create_new_def Let_def split: prod.splits sum.splits
      dest!: createCluster_Inl createCluster_Inr)

lemma create_new_k3d_cases:
  assumes "create_new_k3d env s cl = (res, s')"
  shows "(status res = 500 \<and> (\<exists>m. json res = ErrorJson (''Failed to create cluster: '' @ m))
            \<and> set_cookies res = cl \<and> sandboxes s' = sandboxes s)
         \<or> (status res = 200
            \<and> (\<exists>sid. json res = SandboxJson ''Sandbox created successfully'' sid expiresIn
                  \<and> set_cookies res = cl @ [SetCookie ''sandboxId'' sid SANDBOX_LIFETIME_MS]
                  \<and> sandboxes s' = AList.update sid (date_now env (world s')) (sandboxes s)))"
  using assms
  by (auto simp: create_new_k3d_def Let_def split: prod.splits sum.splits
      dest!: createCluster_k3d_Inl createCluster_k3d_Inr)

lemma create_new_locks:
  "creationLocks (snd (create_new env s cl)) = creationLocks s"
  by (auto simp: create_new_def createCluster_def Let_def run_execa_def
      split: prod.splits sum.splits)

lemma create_new_k3d_locks:
  "creationLocks (snd (create_new_k3d env s cl)) = creationLocks s"
  by (auto simp: create_new_k3d_def createCluster_k3d_def Let_def run_execa_def
      split: prod.splits sum.splits)

lemma create_new_failure:
  assumes "status (fst (create_new env s cl)) \<noteq> 200"
  shows "status (fst (create_new env s cl)) = 500"
    and "\<exists>m. json (fst (create_new env s cl)) = ErrorJson (''Failed to create cluster: '' @ m)"
    and "sandboxes (snd (create_new env s cl)) = sandboxes s"
  using assms create_new_cases[of env s cl "fst (create_new env s cl)" "snd (create_new env s cl)"]
  by auto

lemma create_new_k3d_failure:
  assumes "status (fst (create_new_k3d env s cl)) \<noteq> 200"
  shows "status (fst (create_new_k3d env s cl)) = 500"
    and "\<exists>m. json (fst (create_new_k3d env s cl))
            = ErrorJson (''Failed to create cluster: '' @ m)"
    and "sandboxes (snd (create_new_k3d env s cl)) = sandboxes s"
  using assms
    create_new_k3d_cases[of env s cl "fst (create_new_k3d env s cl)"
      "snd (create_new_k3d env s cl)"]
  by auto

lemma post_sandbox_locks:
  "creationLocks (snd (post_sandbox env s req)) = creationLocks s"
  by (auto simp: post_sandbox_def create_new_locks run_execa_def
      split: option.splits prod.splits sum.splits)

lemma post_sandbox_k3d_locks:
  "creationLocks (snd (post_sandbox_k3d env s req)) = creationLocks s"
  by (auto simp: post_sandbox_k3d_def create_new_k3d_locks run_execa_def
      split: option.splits prod.splits sum.splits)

lemma delete_subset: "set (AList.delete k al) \<subseteq> set al"
  by (auto simp: AList.delete_eq)

lemma post_sandbox_cases:
  "(\<exists>sid. cookie_sandboxId req = Some sid \<and> sid \<noteq> []
        \<and> \<not> isl (fst (execa env (world s) ''k3d'' [''cluster'', ''list'', sid]))
        \<and> fst (post_sandbox env s req)
            = \<lparr>status = 200, json = SandboxJson ''Using existing sandbox'' sid expiresIn,
               set_cookies = []\<rparr>
        \<and> sandboxes (snd (post_sandbox env s req)) = sandboxes s
        \<and> calls (snd (post_sandbox env s req))
            = calls s @ [(''k3d'', [''cluster'', ''list'', sid])])
   \<or> (\<exists>s0 cl. post_sandbox env s req = create_new env s0 cl
        \<and> set (sandboxes s0) \<subseteq> set (sandboxes s)
        \<and> filter is_create_call (calls s0) = filter is_create_call (calls s)
        \<and> filter is_delete_call (calls s0) = filter is_delete_call (calls s))"
proof (cases "cookie_sandboxId req")
  case None
  then have "post_sandbox env s req = create_new env s []"
    by (simp add: post_sandbox_def)
  then show ?thesis by blast
next
  case (Some sid)
  show ?thesis
  proof (cases "sid = []")
    case True
    then have "post_sandbox env s req = create_new env s []"
      using Some by (simp add: post_sandbox_def)
    then show ?thesis by blast
  next
    case False
    obtain r w where e: "execa env (world s) ''k3d'' [''cluster'', ''list'', sid] = (r, w)"
      by (cases "execa env (world s) ''k3d'' [''cluster'', ''list'', sid]")
    show ?thesis
    proof (cases r)
      case (Inl m)
      let ?s0 = "s\<lparr>world := w, calls := calls s @ [(''k3d'', [''cluster'', ''list'', sid])],
                   sandboxes := AList.delete sid (sandboxes s)\<rparr>"
      have "post_sandbox env s req = create_new env ?s0 [ClearCookie ''sandboxId'']"
        using Some False e Inl by (simp add: post_sandbox_def run_execa_def)
      moreover have "set (sandboxes ?s0) \<subseteq> set (sandboxes s)"
        using delete_subset by simp
      moreover have "filter is_create_call (calls ?s0) = filter is_create_call (calls s)"
        by (simp add: is_create_call_def)
      moreover have "filter is_delete_call (calls ?s0) = filter is_delete_call (calls s)"
        by (simp add: is_delete_call_def)
      ultimately show ?thesis by blast
    next
      case (Inr out)
      then show ?thesis
        using Some False e by (simp add: post_sandbox_def run_execa_def)
    qed
  qed
qed

lemma post_sandbox_failure:
  assumes "status (fst (post_sandbox env s req)) \<noteq> 200"
  shows "status (fst (post_sandbox env s req)) = 500
     \<and> (\<exists>m. json (fst (post_sandbox env s req)) = ErrorJson (''Failed to create cluster: '' @ m))
     \<and> set (sandboxes (snd (post_sandbox env s req))) \<subseteq> set (sandboxes s)"
proof -
  from post_sandbox_cases[of req env s] assms
  obtain s0 cl where p: "post_sandbox env s req = create_new env s0 cl"
    and sub: "set (sandboxes s0) \<subseteq> set (sandboxes s)"
    by auto
  have "status (fst (create_new env s0 cl)) \<noteq> 200" using assms p by simp
  from create_new_failure[OF this] show ?thesis using p sub by simp
qed

lemma post_sandbox_k3d_cases:
  "(\<exists>sid out. cookie_sandboxId req = Some sid \<and> sid \<noteq> []
        \<and> fst (execa env (world s) ''k3d'' [''cluster'', ''list'']) = Inr out
        \<and> matching_lines out sid \<noteq> []
        \<and> fst (post_sandbox_k3d env s req)
            = \<lparr>status = 200, json = SandboxJson ''Using existing sandbox'' sid expiresIn,
               set_cookies = []\<rparr>
        \<and> sandboxes (snd (post_sandbox_k3d env s req)) = sandboxes s
        \<and> calls (snd (post_sandbox_k3d env s req))
            = calls s @ [(''k3d'', [''cluster'', ''list''])])
   \<or> (\<exists>s0 cl. post_sandbox_k3d env s req = create_new_k3d env s0 cl
        \<and> set (sandboxes s0) \<subseteq> set (sandboxes s)
        \<and> filter is_create_call (calls s0) = filter is_create_call (calls s)
        \<and> filter is_delete_call (calls s0) = filter is_delete_call (calls s))"
proof (cases "cookie_sandboxId req")
  case None
  then have "post_sandbox_k3d env s req = create_new_k3d env s []"
    by (simp add: post_sandbox_k3d_def)
  then show ?thesis by blast
next
  case (Some sid)
  show ?thesis
  proof (cases "sid = []")
    case True
    then have "post_sandbox_k3d env s req = create_new_k3d env s []"
      using Some by (simp add: post_sandbox_k3d_def)
    then show ?thesis by blast
  next
    case False
    obtain r w where e: "execa env (world s) ''k3d'' [''cluster'', ''list''] = (r, w)"
      by (cases "execa env (world s) ''k3d'' [''cluster'', ''list'']")
    let ?s1 = "s\<lparr>world := w, calls := calls s @ [(''k3d'', [''cluster'', ''list''])]\<rparr>"
    have c1: "filter is_create_call (calls ?s1) = filter is_create_call (calls s)"
      by (simp add: is_create_call_def)
    have d1: "filter is_delete_call (calls ?s1) = filter is_delete_call (calls s)"
      by (simp add: is_delete_call_def)
    show ?thesis
    proof (cases r)
      case (Inl m)
      let ?s0 = "?s1\<lparr>sandboxes := AList.delete sid (sandboxes ?s1)\<rparr>"
      have "post_sandbox_k3d env s req = create_new_k3d env ?s0 [ClearCookie ''sandboxId'']"
        using Some False e Inl by (simp add: post_sandbox_k3d_def run_execa_def)
      moreover have "set (sandboxes ?s0) \<subseteq> set (sandboxes s)"
        using delete_subset by simp
      moreover have "filter is_create_call (calls ?s0) = filter is_create_call (calls s)"
        using c1 by simp
      moreover have "filter is_delete_call (calls ?s0) = filter is_delete_call (calls s)"
        using d1 by simp
      ultimately show ?thesis by blast
    next
      case (Inr out)
      show ?thesis
      proof (cases "matching_lines out sid = []")
        case True
        have "post_sandbox_k3d env s req = create_new_k3d env ?s1 []"
          using Some False e Inr True by (simp add: post_sandbox_k3d_def run_execa_def)
        moreover have "set (sandboxes ?s1) \<subseteq> set (sandboxes s)" by simp
        ultimately show ?thesis using c1 d1 by blast
      next
        case nonempty: False
        then show ?thesis
          using Some False e Inr by (simp add: post_sandbox_k3d_def run_execa_def)
      qed
    qed
  qed
qed

lemma post_sandbox_k3d_failure:
  assumes "status (fst (post_sandbox_k3d env s req)) \<noteq> 200"
  shows "status (fst (post_sandbox_k3d env s req)) = 500
     \<and> (\<exists>m. json (fst (post_sandbox_k3d env s req))
            = ErrorJson (''Failed to create cluster: '' @ m))
     \<and> set (sandboxes (snd (post_sandbox_k3d env s req))) \<subseteq> set (sandboxes s)"
proof -
  from post_sandbox_k3d_cases[of req env s] assms
  obtain s0 cl where p: "post_sandbox_k3d env s req = create_new_k3d env s0 cl"
    and sub: "set (sandboxes s0) \<subseteq> set (sandboxes s)"
    by auto
  have "status (fst (create_new_k3d env s0 cl)) \<noteq> 200" using assms p by simp
  from create_new_k3d_failure[OF this] show ?thesis using p sub by simp
qed

lemma create_new_no_delete:
  "filter is_delete_call (calls (snd (create_new env s cl))) = filter is_delete_call (calls s)"
  by (auto simp: create_new_def createCluster_def Let_def run_execa_def is_delete_call_def
      split: prod.splits sum.splits)

lemma create_new_k3d_no_delete:
  "filter is_delete_call (calls (snd (create_new_k3d env s cl)))
     = filter is_delete_call (calls s)"
  by (auto simp: create_new_k3d_def createCluster_k3d_def Let_def run_execa_def
      is_delete_call_def split: prod.splits sum.splits)

lemma post_sandbox_no_delete:
  "filter is_delete_call (calls (snd (post_sandbox env s req)))
     = filter is_delete_call (calls s)"
proof -
  from post_sandbox_cases[of req env s] show ?thesis
  proof (elim disjE exE conjE)
    fix sid
    assume "calls (snd (post_sandbox env s req))
              = calls s @ [(''k3d'', [''cluster'', ''list'', sid])]"
    then show ?thesis by (simp add: is_delete_call_def)
  next
    fix s0 cl
    assume "post_sandbox env s req = create_new env s0 cl"
      and "filter is_delete_call (calls s0) = filter is_delete_call (calls s)"
    then show ?thesis by (simp add: create_new_no_delete)
  qed
qed

lemma post_sandbox_k3d_no_delete:
  "filter is_delete_call (calls (snd (post_sandbox_k3d env s req)))
     = filter is_delete_call (calls s)"
proof -
  from post_sandbox_k3d_cases[of req env s] show ?thesis
  proof (elim disjE exE conjE)
    assume "calls (snd (post_sandbox_k3d env s req))
              = calls s @ [(''k3d'', [''cluster'', ''list''])]"
    then show ?thesis by (simp add: is_delete_call_def)
  next
    fix s0 cl
    assume "post_sandbox_k3d env s req = create_new_k3d env s0 cl"
      and "filter is_delete_call (calls s0) = filter is_delete_call (calls s)"
    then show ?thesis by (simp add: create_new_k3d_no_delete)
  qed
qed

lemma route_post_sandbox_calls:
  "calls (snd (route_post_sandbox env s req))
     = (if map_of (creationLocks s) (ip req) = Some True then calls s
        else calls (snd (post_sandbox env
               (s\<lparr>creationLocks := AList.update (ip req) True (creationLocks s)\<rparr>) req)))"
  by (simp add: route_post_sandbox_def preventConcurrentRequests_def on_finish_def
      split: prod.splits)

lemma route_post_sandbox_k3d_calls:
  "calls (snd (route_post_sandbox_k3d env s req))
     = (if map_of (creationLocks s) (ip req) = Some True then calls s
        else calls (snd (post_sandbox_k3d env
               (s\<lparr>creationLocks := AList.update (ip req) True (creationLocks s)\<rparr>) req)))"
  by (simp add: route_post_sandbox_k3d_def preventConcurrentRequests_def on_finish_def
      split: prod.splits)

subsection \<open>No deletion after a failed creation\<close>

text \<open>
  C6, as the code has it. A request to \<^verbatim>\<open>POST /sandbox\<close>, whatever its outcome, issues no driver
  deletion: the deletion calls in the history after the request are those before it. A
  creation that fails after its create call was issued is reported, and the cluster is left
  to the driver. Both editions. (No call of \<^verbatim>\<open>execa\<close> is given a timeout either.)
\<close>

theorem creation_issues_no_deletion:
  "filter is_delete_call (calls (snd (route_post_sandbox env s req)))
     = filter is_delete_call (calls s)
   \<and> filter is_delete_call (calls (snd (route_post_sandbox_k3d env s req)))
     = filter is_delete_call (calls s)"
  using post_sandbox_no_delete[of env _ req] post_sandbox_k3d_no_delete[of env _ req]
  by (simp add: route_post_sandbox_calls route_post_sandbox_k3d_calls)

text \<open>The theorem at two failed creations: \<^verbatim>\<open>kind create\<close> rejected in
  \<^verbatim>\<open>backend/src/server.js\<close>, the readiness wait rejected in the k3d edition.\<close>

theorem creation_issues_no_deletion_witness:
  "filter is_delete_call
     (calls (snd (route_post_sandbox (scripted (failing ''kind'') 1000 ''abc1234567'') start
        (client None None)))) = []
   \<and> filter is_delete_call
     (calls (snd (route_post_sandbox_k3d (scripted (failing ''kubectl'') 1000 ''abc1234567'')
        start (client None None)))) = []"
  using creation_issues_no_deletion[of "scripted (failing ''kind'') 1000 ''abc1234567''" start
          "client None None"]
        creation_issues_no_deletion[of "scripted (failing ''kubectl'') 1000 ''abc1234567''" start
          "client None None"]
  by (simp add: start_def)

text \<open>
  C6 as stated asks for an attempt to delete the partly created cluster. In the k3d edition,
  on a host where \<^verbatim>\<open>k3d cluster create\<close> succeeds and the \<^verbatim>\<open>kubectl wait\<close> that follows is
  rejected, the request ends with status 500 after exactly two driver calls, the creation
  and the wait; no deletion follows.
\<close>

theorem failed_creation_cleanup_counterexample:
  "route_post_sandbox_k3d (scripted (failing ''kubectl'') 1000 ''abc1234567'') start
     (client None None)
   = (\<lparr>status = 500,
       json = ErrorJson ''Failed to create cluster: Command failed with exit code 1'',
       set_cookies = []\<rparr>,
      \<lparr>sandboxes = [], creationLocks = [], world = (),
       calls =
         [(''k3d'', [''cluster'', ''create'', ''sb-abc1234567'', ''--api-port'', ''6443'',
                    ''--k3s-arg'', ''--disable=traefik@server:0'', ''--wait'']),
          (''kubectl'', [''--context'', ''k3d-sb-abc1234567'', ''wait'',
                    ''--for=condition=Ready'', ''nodes'', ''--all'', ''--timeout=30s''])]\<rparr>)"
  by (simp add: route_post_sandbox_k3d_def preventConcurrentRequests_def on_finish_def
      post_sandbox_k3d_def create_new_k3d_def createCluster_k3d_def run_execa_def
      scripted_def failing_def k3d_host_def start_def client_def Let_def)

subsection \<open>A failed creation registers nothing\<close>

lemma create_new_unfold:
  "create_new env s cl =
     (case createCluster env (after_id env s) (new_id env s) of
        (Inl msg, s1) \<Rightarrow> (\<lparr>status = 500, json = ErrorJson msg, set_cookies = cl\<rparr>, s1)
      | (Inr b, s1) \<Rightarrow>
          (\<lparr>status = 200,
            json = SandboxJson ''Sandbox created successfully'' (new_id env s) expiresIn,
            set_cookies = cl @ [SetCookie ''sandboxId'' (new_id env s) SANDBOX_LIFETIME_MS]\<rparr>,
           s1))"
  by (auto simp: create_new_def after_id_def new_id_def Let_def split: prod.splits sum.splits)

lemma create_new_k3d_unfold:
  "create_new_k3d env s cl =
     (case createCluster_k3d env (after_id env s) (new_id env s) of
        (Inl msg, s1) \<Rightarrow> (\<lparr>status = 500, json = ErrorJson msg, set_cookies = cl\<rparr>, s1)
      | (Inr b, s1) \<Rightarrow>
          (\<lparr>status = 200,
            json = SandboxJson ''Sandbox created successfully'' (new_id env s) expiresIn,
            set_cookies = cl @ [SetCookie ''sandboxId'' (new_id env s) SANDBOX_LIFETIME_MS]\<rparr>,
           s1))"
  by (auto simp: create_new_k3d_def after_id_def new_id_def Let_def split: prod.splits sum.splits)

lemma createCluster_failed:
  assumes "isl (fst (createCluster env s sid))"
  shows "sandboxes (snd (createCluster env s sid)) = sandboxes s
     \<and> (\<exists>m. fst (createCluster env s sid) = Inl (''Failed to create cluster: '' @ m))"
proof -
  obtain r s' where c: "createCluster env s sid = (r, s')" by (cases "createCluster env s sid")
  then obtain e where "r = Inl e" using assms by (cases r) simp_all
  then show ?thesis using c createCluster_Inl[of env s sid e s'] by auto
qed

lemma createCluster_k3d_failed:
  assumes "isl (fst (createCluster_k3d env s sid))"
  shows "sandboxes (snd (createCluster_k3d env s sid)) = sandboxes s
     \<and> (\<exists>m. fst (createCluster_k3d env s sid) = Inl (''Failed to create cluster: '' @ m))"
proof -
  obtain r s' where c: "createCluster_k3d env s sid = (r, s')"
    by (cases "createCluster_k3d env s sid")
  then obtain e where "r = Inl e" using assms by (cases r) simp_all
  then show ?thesis using c createCluster_k3d_Inl[of env s sid e s'] by auto
qed

lemma create_new_surfaces:
  assumes "isl (fst (createCluster env (after_id env s) (new_id env s)))"
  shows "status (fst (create_new env s cl)) = 500
     \<and> (\<exists>m. json (fst (create_new env s cl)) = ErrorJson (''Failed to create cluster: '' @ m))
     \<and> sandboxes (snd (create_new env s cl)) = sandboxes s"
proof -
  obtain r s' where c: "createCluster env (after_id env s) (new_id env s) = (r, s')"
    by (cases "createCluster env (after_id env s) (new_id env s)")
  then obtain e where r: "r = Inl e" using assms by (cases r) simp_all
  have "sandboxes (after_id env s) = sandboxes s" by (simp add: after_id_def)
  then show ?thesis
    using c r createCluster_Inl[of env "after_id env s" "new_id env s" e s']
    by (auto simp: create_new_unfold)
qed

lemma create_new_k3d_surfaces:
  assumes "isl (fst (createCluster_k3d env (after_id env s) (new_id env s)))"
  shows "status (fst (create_new_k3d env s cl)) = 500
     \<and> (\<exists>m. json (fst (create_new_k3d env s cl))
            = ErrorJson (''Failed to create cluster: '' @ m))
     \<and> sandboxes (snd (create_new_k3d env s cl)) = sandboxes s"
proof -
  obtain r s' where c: "createCluster_k3d env (after_id env s) (new_id env s) = (r, s')"
    by (cases "createCluster_k3d env (after_id env s) (new_id env s)")
  then obtain e where r: "r = Inl e" using assms by (cases r) simp_all
  have "sandboxes (after_id env s) = sandboxes s" by (simp add: after_id_def)
  then show ?thesis
    using c r createCluster_k3d_Inl[of env "after_id env s" "new_id env s" e s']
    by (auto simp: create_new_k3d_unfold)
qed

text \<open>
  C5. \<^verbatim>\<open>createCluster\<close> fails exactly when one of its steps is rejected: writing the
  configuration, \<^verbatim>\<open>kind create cluster\<close> or removing the configuration in
  \<^verbatim>\<open>backend/src/server.js\<close>; \<^verbatim>\<open>k3d cluster create\<close> or the readiness wait in the k3d edition.
  When it fails, the map of sandboxes is the one before the attempt and the error reads
  \<^verbatim>\<open>Failed to create cluster: ...\<close>; the handler answers 500 with that error, and an id that
  had no entry has none afterwards. A request to \<^verbatim>\<open>POST /sandbox\<close> that does not end with
  status 200 ends with that failure and adds no entry.
\<close>

theorem failed_creation_registers_nothing:
  "(isl (fst (createCluster env s sid)) \<longleftrightarrow>
      isl (fst (fs_writeFile env (world s) (config_path sid) (config_yaml sid)))
      \<or> isl (fst (execa env
             (snd (fs_writeFile env (world s) (config_path sid) (config_yaml sid)))
             ''kind'' (kind_create_args sid)))
      \<or> isl (fst (fs_unlink env
             (snd (execa env
                (snd (fs_writeFile env (world s) (config_path sid) (config_yaml sid)))
                ''kind'' (kind_create_args sid)))
             (config_path sid))))
   \<and> (isl (fst (createCluster_k3d env s sid)) \<longleftrightarrow>
      isl (fst (execa env (world s) ''k3d'' (k3d_create_args sid)))
      \<or> isl (fst (execa env
             (setTimeout env (snd (execa env (world s) ''k3d'' (k3d_create_args sid))) 10000)
             ''kubectl'' (kubectl_wait_args sid))))
   \<and> (isl (fst (createCluster env s sid)) \<longrightarrow>
        sandboxes (snd (createCluster env s sid)) = sandboxes s
        \<and> (\<exists>m. fst (createCluster env s sid) = Inl (''Failed to create cluster: '' @ m)))
   \<and> (isl (fst (createCluster_k3d env s sid)) \<longrightarrow>
        sandboxes (snd (createCluster_k3d env s sid)) = sandboxes s
        \<and> (\<exists>m. fst (createCluster_k3d env s sid) = Inl (''Failed to create cluster: '' @ m)))
   \<and> (isl (fst (createCluster env (after_id env s) (new_id env s))) \<longrightarrow>
        status (fst (create_new env s cl)) = 500
        \<and> (\<exists>m. json (fst (create_new env s cl))
               = ErrorJson (''Failed to create cluster: '' @ m))
        \<and> sandboxes (snd (create_new env s cl)) = sandboxes s
        \<and> (map_of (sandboxes s) (new_id env s) = None \<longrightarrow>
             map_of (sandboxes (snd (create_new env s cl))) (new_id env s) = None))
   \<and> (isl (fst (createCluster_k3d env (after_id env s) (new_id env s))) \<longrightarrow>
        status (fst (create_new_k3d env s cl)) = 500
        \<and> (\<exists>m. json (fst (create_new_k3d env s cl))
               = ErrorJson (''Failed to create cluster: '' @ m))
        \<and> sandboxes (snd (create_new_k3d env s cl)) = sandboxes s
        \<and> (map_of (sandboxes s) (new_id env s) = None \<longrightarrow>
             map_of (sandboxes (snd (create_new_k3d env s cl))) (new_id env s) = None))
   \<and> (status (fst (post_sandbox env s req)) \<noteq> 200 \<longrightarrow>
        status (fst (post_sandbox env s req)) = 500
        \<and> (\<exists>m. json (fst (post_sandbox env s req))
               = ErrorJson (''Failed to create cluster: '' @ m))
        \<and> set (sandboxes (snd (post_sandbox env s req))) \<subseteq> set (sandboxes s))
   \<and> (status (fst (post_sandbox_k3d env s req)) \<noteq> 200 \<longrightarrow>
        status (fst (post_sandbox_k3d env s req)) = 500
        \<and> (\<exists>m. json (fst (post_sandbox_k3d env s req))
               = ErrorJson (''Failed to create cluster: '' @ m))
        \<and> set (sandboxes (snd (post_sandbox_k3d env s req))) \<subseteq> set (sandboxes s))"
  (is "?A \<and> ?B \<and> ?C \<and> ?D \<and> ?E \<and> ?F \<and> ?G \<and> ?H")
proof -
  have a: ?A
    using createCluster_steps[of env s sid] by (simp add: config_path_def kind_create_args_def)
  have b: ?B
    using createCluster_k3d_steps[of env s sid]
    by (simp add: k3d_create_args_def kubectl_wait_args_def)
  have c: ?C using createCluster_failed[of env s sid] by blast
  have d: ?D using createCluster_k3d_failed[of env s sid] by blast
  have e: ?E using create_new_surfaces[of env s cl] by simp
  have f: ?F using create_new_k3d_surfaces[of env s cl] by simp
  have g: ?G using post_sandbox_failure[of env s req] by blast
  have h: ?H using post_sandbox_k3d_failure[of env s req] by blast
  show ?thesis by (intro conjI) (fact a, fact b, fact c, fact d, fact e, fact f, fact g, fact h)
qed

text \<open>The theorem at a rejected \<^verbatim>\<open>kind create cluster\<close> and at a rejected readiness wait.\<close>

theorem failed_creation_registers_nothing_witness:
  "isl (fst (createCluster (scripted (failing ''kind'') 1000 ''abc1234567'')
          (after_id (scripted (failing ''kind'') 1000 ''abc1234567'') start)
          (new_id (scripted (failing ''kind'') 1000 ''abc1234567'') start)))
   \<and> status (fst (create_new (scripted (failing ''kind'') 1000 ''abc1234567'') start [])) = 500
   \<and> sandboxes (snd (create_new (scripted (failing ''kind'') 1000 ''abc1234567'') start []))
       = []
   \<and> isl (fst (createCluster_k3d (scripted (failing ''kubectl'') 1000 ''abc1234567'')
          (after_id (scripted (failing ''kubectl'') 1000 ''abc1234567'') start)
          (new_id (scripted (failing ''kubectl'') 1000 ''abc1234567'') start)))
   \<and> status (fst (create_new_k3d (scripted (failing ''kubectl'') 1000 ''abc1234567'') start []))
       = 500
   \<and> sandboxes (snd (create_new_k3d (scripted (failing ''kubectl'') 1000 ''abc1234567'')
          start [])) = []
   \<and> map_of (sandboxes (snd (create_new_k3d (scripted (failing ''kubectl'') 1000 ''abc1234567'')
          start []))) ''sb-abc1234567'' = None"
  using failed_creation_registers_nothing
          [of "scripted (failing ''kind'') 1000 ''abc1234567''" start "''sb-abc1234567''" "[]"
              "client None None"]
        failed_creation_registers_nothing
          [of "scripted (failing ''kubectl'') 1000 ''abc1234567''" start "''sb-abc1234567''" "[]"
              "client None None"]
  by (simp add: createCluster_def createCluster_k3d_def run_execa_def scripted_def failing_def
      k3d_host_def start_def after_id_def new_id_def Let_def)

section \<open>Validation, deletion and execution\<close>

lemma validateSandbox_pass:
  assumes "validateSandbox env s req = (None, s1)"
  shows "\<exists>sid out. cookie_sandboxId req = Some sid \<and> sid \<noteq> []
           \<and> execa env (world s) ''k3d'' [''cluster'', ''list'', sid] = (Inr out, world s1)
           \<and> sandboxes s1 = sandboxes s \<and> creationLocks s1 = creationLocks s
           \<and> calls s1 = calls s @ [(''k3d'', [''cluster'', ''list'', sid])]"
  using assms
  by (auto simp: validateSandbox_def run_execa_def
      split: option.splits if_splits prod.splits sum.splits)

lemma validateSandbox_k3d_pass:
  assumes "validateSandbox_k3d env s req = (None, s1)"
  shows "\<exists>sid out. cookie_sandboxId req = Some sid \<and> sid \<noteq> []
           \<and> execa env (world s) ''k3d'' [''cluster'', ''list''] = (Inr out, world s1)
           \<and> matching_lines out sid \<noteq> []
           \<and> sandboxes s1 = sandboxes s \<and> creationLocks s1 = creationLocks s
           \<and> calls s1 = calls s @ [(''k3d'', [''cluster'', ''list''])]"
  using assms
  by (auto simp: validateSandbox_k3d_def run_execa_def
      split: option.splits if_splits prod.splits sum.splits)

lemma delete_sandbox_ok:
  assumes "\<not> isl (fst (execa env (world s) ''kind'' [''delete'', ''cluster'', ''--name'', cookie_text req]))"
  shows "fst (delete_sandbox env s req)
           = \<lparr>status = 200, json = MessageJson ''Sandbox deleted successfully'',
              set_cookies = [ClearCookie ''sandboxId'']\<rparr>
         \<and> map_of (sandboxes (snd (delete_sandbox env s req))) (cookie_text req) = None"
  using assms
  by (auto simp: delete_sandbox_def deleteCluster_def run_execa_def delete_conv
      split: prod.splits sum.splits)

lemma delete_sandbox_failed:
  assumes "fst (execa env (world s) ''kind'' [''delete'', ''cluster'', ''--name'', cookie_text req])
             = Inl m"
  shows "fst (delete_sandbox env s req)
           = \<lparr>status = 500, json = ErrorJson (''Failed to delete cluster: '' @ m),
              set_cookies = []\<rparr>
         \<and> sandboxes (snd (delete_sandbox env s req)) = sandboxes s"
  using assms
  by (auto simp: delete_sandbox_def deleteCluster_def run_execa_def
      split: prod.splits sum.splits)

lemma delete_sandbox_k3d_ok:
  assumes "\<not> isl (fst (execa env (world s) ''k3d'' [''cluster'', ''delete'', cookie_text req]))"
  shows "fst (delete_sandbox_k3d env s req)
           = \<lparr>status = 200, json = MessageJson ''Sandbox deleted successfully'',
              set_cookies = [ClearCookie ''sandboxId'']\<rparr>
         \<and> map_of (sandboxes (snd (delete_sandbox_k3d env s req))) (cookie_text req) = None"
  using assms
  by (auto simp: delete_sandbox_k3d_def deleteCluster_k3d_def run_execa_def delete_conv
      split: prod.splits sum.splits)

lemma delete_sandbox_k3d_failed:
  assumes "fst (execa env (world s) ''k3d'' [''cluster'', ''delete'', cookie_text req]) = Inl m"
  shows "fst (delete_sandbox_k3d env s req)
           = \<lparr>status = 500, json = ErrorJson (''Failed to delete cluster: '' @ m),
              set_cookies = []\<rparr>
         \<and> sandboxes (snd (delete_sandbox_k3d env s req)) = sandboxes s"
  using assms
  by (auto simp: delete_sandbox_k3d_def deleteCluster_k3d_def run_execa_def
      split: prod.splits sum.splits)

subsection \<open>Deleting a sandbox\<close>

text \<open>
  C7, as the code has it. For a request to \<^verbatim>\<open>DELETE /sandbox\<close> that passed the validation:
  when the driver's deletion call resolves (whatever it printed, whether or not the cluster
  was still there), the answer is 200, the cookie is cleared and the map has no entry for
  the id; when the driver's deletion call is rejected, the answer is 500 with
  \<^verbatim>\<open>Failed to delete cluster: ...\<close>, no cookie is cleared and the map is the one before the
  request. Both editions.
\<close>

theorem delete_follows_driver_result:
  "(validateSandbox env s req = (None, s1) \<longrightarrow>
      (\<not> isl (fst (execa env (world s1) ''kind''
                 [''delete'', ''cluster'', ''--name'', cookie_text req])) \<longrightarrow>
         fst (route_delete_sandbox env s req)
           = \<lparr>status = 200, json = MessageJson ''Sandbox deleted successfully'',
              set_cookies = [ClearCookie ''sandboxId'']\<rparr>
         \<and> map_of (sandboxes (snd (route_delete_sandbox env s req))) (cookie_text req) = None)
      \<and> (\<forall>m. fst (execa env (world s1) ''kind''
                 [''delete'', ''cluster'', ''--name'', cookie_text req]) = Inl m \<longrightarrow>
         fst (route_delete_sandbox env s req)
           = \<lparr>status = 500, json = ErrorJson (''Failed to delete cluster: '' @ m),
              set_cookies = []\<rparr>
         \<and> sandboxes (snd (route_delete_sandbox env s req)) = sandboxes s))
   \<and> (validateSandbox_k3d env s req = (None, s2) \<longrightarrow>
      (\<not> isl (fst (execa env (world s2) ''k3d'' [''cluster'', ''delete'', cookie_text req])) \<longrightarrow>
         fst (route_delete_sandbox_k3d env s req)
           = \<lparr>status = 200, json = MessageJson ''Sandbox deleted successfully'',
              set_cookies = [ClearCookie ''sandboxId'']\<rparr>
         \<and> map_of (sandboxes (snd (route_delete_sandbox_k3d env s req))) (cookie_text req)
             = None)
      \<and> (\<forall>m. fst (execa env (world s2) ''k3d'' [''cluster'', ''delete'', cookie_text req])
               = Inl m \<longrightarrow>
         fst (route_delete_sandbox_k3d env s req)
           = \<lparr>status = 500, json = ErrorJson (''Failed to delete cluster: '' @ m),
              set_cookies = []\<rparr>
         \<and> sandboxes (snd (route_delete_sandbox_k3d env s req)) = sandboxes s))"
  (is "(?V1 \<longrightarrow> ?A) \<and> (?V2 \<longrightarrow> ?B)")
proof (intro conjI)
  show "?V1 \<longrightarrow> ?A"
  proof
    assume v: ?V1
    then have r: "route_delete_sandbox env s req = delete_sandbox env s1 req"
      by (simp add: route_delete_sandbox_def)
    have sb: "sandboxes s1 = sandboxes s"
      using validateSandbox_pass[OF v] by blast
    show ?A
      unfolding r
      using delete_sandbox_ok[of env s1 req] delete_sandbox_failed[of env s1 req] sb
      by auto
  qed
  show "?V2 \<longrightarrow> ?B"
  proof
    assume v: ?V2
    then have r: "route_delete_sandbox_k3d env s req = delete_sandbox_k3d env s2 req"
      by (simp add: route_delete_sandbox_k3d_def)
    have sb: "sandboxes s2 = sandboxes s"
      using validateSandbox_k3d_pass[OF v] by blast
    show ?B
      unfolding r
      using delete_sandbox_k3d_ok[of env s2 req] delete_sandbox_k3d_failed[of env s2 req] sb
      by auto
  qed
qed

text \<open>The theorem at a validated sandbox with one entry, on a host whose driver accepts the
  deletion and on one whose driver rejects it.\<close>

theorem delete_follows_driver_result_witness:
  "fst (route_delete_sandbox (scripted k3d_host 1000 ''abc1234567'') one_sandbox
          (client (Some ''sb-abc1234567'') None))
     = \<lparr>status = 200, json = MessageJson ''Sandbox deleted successfully'',
        set_cookies = [ClearCookie ''sandboxId'']\<rparr>
   \<and> sandboxes (snd (route_delete_sandbox (scripted (failing ''delete'') 1000 ''abc1234567'')
          one_sandbox (client (Some ''sb-abc1234567'') None))) = sandboxes one_sandbox
   \<and> fst (route_delete_sandbox_k3d (scripted k3d_host 1000 ''abc1234567'') one_sandbox
          (client (Some ''sb-abc1234567'') None))
     = \<lparr>status = 200, json = MessageJson ''Sandbox deleted successfully'',
        set_cookies = [ClearCookie ''sandboxId'']\<rparr>
   \<and> sandboxes (snd (route_delete_sandbox_k3d (scripted (failing ''delete'') 1000 ''abc1234567'')
          one_sandbox (client (Some ''sb-abc1234567'') None))) = sandboxes one_sandbox"
  using delete_follows_driver_result
          [of "scripted k3d_host 1000 ''abc1234567''" one_sandbox
              "client (Some ''sb-abc1234567'') None"
              "one_sandbox\<lparr>calls := [(''k3d'', [''cluster'', ''list'', ''sb-abc1234567''])]\<rparr>"
              "one_sandbox\<lparr>calls := [(''k3d'', [''cluster'', ''list''])]\<rparr>"]
        delete_follows_driver_result
          [of "scripted (failing ''delete'') 1000 ''abc1234567''" one_sandbox
              "client (Some ''sb-abc1234567'') None"
              "one_sandbox\<lparr>calls := [(''k3d'', [''cluster'', ''list'', ''sb-abc1234567''])]\<rparr>"
              "one_sandbox\<lparr>calls := [(''k3d'', [''cluster'', ''list''])]\<rparr>"]
  by (simp add: validateSandbox_def validateSandbox_k3d_def run_execa_def scripted_def
      failing_def k3d_host_def one_sandbox_def client_def cookie_text_def matching_lines_def
      list_output_def)

text \<open>
  C7 as stated has the entry removed and the token cleared after the driver call, whatever
  the driver reports. On a host whose driver rejects the deletion, the request ends with
  status 500, the entry is still in the map and no cookie is cleared.
\<close>

theorem delete_on_driver_failure_counterexample:
  "route_delete_sandbox (scripted (failing ''delete'') 1000 ''abc1234567'') one_sandbox
      (client (Some ''sb-abc1234567'') None)
     = (\<lparr>status = 500,
         json = ErrorJson ''Failed to delete cluster: Command failed with exit code 1'',
         set_cookies = []\<rparr>,
        \<lparr>sandboxes = [(''sb-abc1234567'', 0)], creationLocks = [], world = (),
         calls = [(''k3d'', [''cluster'', ''list'', ''sb-abc1234567'']),
                  (''kind'', [''delete'', ''cluster'', ''--name'', ''sb-abc1234567''])]\<rparr>)
   \<and> route_delete_sandbox_k3d (scripted (failing ''delete'') 1000 ''abc1234567'') one_sandbox
      (client (Some ''sb-abc1234567'') None)
     = (\<lparr>status = 500,
         json = ErrorJson ''Failed to delete cluster: Command failed with exit code 1'',
         set_cookies = []\<rparr>,
        \<lparr>sandboxes = [(''sb-abc1234567'', 0)], creationLocks = [], world = (),
         calls = [(''k3d'', [''cluster'', ''list'']),
                  (''k3d'', [''cluster'', ''delete'', ''sb-abc1234567''])]\<rparr>)"
  by (simp add: route_delete_sandbox_def route_delete_sandbox_k3d_def validateSandbox_def
      validateSandbox_k3d_def delete_sandbox_def delete_sandbox_k3d_def deleteCluster_def
      deleteCluster_k3d_def run_execa_def scripted_def failing_def k3d_host_def one_sandbox_def
      client_def cookie_text_def matching_lines_def list_output_def)

subsection \<open>A request to execute with no command\<close>

text \<open>
  C8, as the code has it. \<^verbatim>\<open>validateSandbox\<close> runs before the handler looks at the body.
  A request to \<^verbatim>\<open>POST /sandbox/exec\<close> whose command is missing or empty makes no driver call
  but the list query of the validation (none when there is no cookie), never an execution.
  When the request has a body, it is answered 401 when it has no cookie, 404 when the
  validation fails and 400 otherwise. Both editions.
\<close>

theorem missing_command_rejected_after_validation:
  assumes "req_body req = BodyUndefined \<or> req_body req = BodyObject None
           \<or> req_body req = BodyObject (Some [])"
  shows
    "calls (snd (route_post_sandbox_exec env s req))
       = calls s @ (case cookie_sandboxId req of
                      None \<Rightarrow> []
                    | Some sid \<Rightarrow>
                        if sid = [] then [] else [(''k3d'', [''cluster'', ''list'', sid])])
     \<and> calls (snd (route_post_sandbox_exec_k3d env s req))
       = calls s @ (case cookie_sandboxId req of
                      None \<Rightarrow> []
                    | Some sid \<Rightarrow> if sid = [] then [] else [(''k3d'', [''cluster'', ''list''])])
     \<and> (req_body req \<noteq> BodyUndefined \<longrightarrow>
          status (fst (route_post_sandbox_exec env s req))
            = (case cookie_sandboxId req of
                 None \<Rightarrow> 401
               | Some sid \<Rightarrow>
                   if sid = [] then 401
                   else if isl (fst (execa env (world s) ''k3d'' [''cluster'', ''list'', sid]))
                     then 404 else 400)
          \<and> status (fst (route_post_sandbox_exec_k3d env s req))
            = (case cookie_sandboxId req of
                 None \<Rightarrow> 401
               | Some sid \<Rightarrow>
                   if sid = [] then 401
                   else (case fst (execa env (world s) ''k3d'' [''cluster'', ''list'']) of
                           Inl m \<Rightarrow> 404
                         | Inr out \<Rightarrow> if matching_lines out sid = [] then 404 else 400)))"
  using assms
  by (auto simp: route_post_sandbox_exec_def route_post_sandbox_exec_k3d_def
      validateSandbox_def validateSandbox_k3d_def post_sandbox_exec_def
      post_sandbox_exec_k3d_def run_execa_def
      split: option.splits prod.splits sum.splits)

text \<open>The theorem at a request with a live cookie and no command, one with an empty command,
  one with neither cookie nor command, and one with a live cookie and no body.\<close>

theorem missing_command_rejected_after_validation_witness:
  "status (fst (route_post_sandbox_exec (scripted k3d_host 1000 ''abc1234567'') start
       (client (Some ''sb-abc1234567'') None))) = 400
   \<and> status (fst (route_post_sandbox_exec_k3d (scripted k3d_host 1000 ''abc1234567'') start
       (client (Some ''sb-abc1234567'') (Some [])))) = 400
   \<and> status (fst (route_post_sandbox_exec_k3d (scripted k3d_host 1000 ''abc1234567'') start
       (client None None))) = 401
   \<and> calls (snd (route_post_sandbox_exec_k3d (scripted k3d_host 1000 ''abc1234567'') start
       (client None None))) = []
   \<and> calls (snd (route_post_sandbox_exec_k3d (scripted k3d_host 1000 ''abc1234567'') start
       ((client (Some ''sb-abc1234567'') None)\<lparr>req_body := BodyUndefined\<rparr>)))
     = [(''k3d'', [''cluster'', ''list''])]"
  using missing_command_rejected_after_validation
          [of "client (Some ''sb-abc1234567'') None" "scripted k3d_host 1000 ''abc1234567''" start]
        missing_command_rejected_after_validation
          [of "client (Some ''sb-abc1234567'') (Some [])"
              "scripted k3d_host 1000 ''abc1234567''" start]
        missing_command_rejected_after_validation
          [of "client None None" "scripted k3d_host 1000 ''abc1234567''" start]
        missing_command_rejected_after_validation
          [of "(client (Some ''sb-abc1234567'') None)\<lparr>req_body := BodyUndefined\<rparr>"
              "scripted k3d_host 1000 ''abc1234567''" start]
  by (simp add: client_def scripted_def k3d_host_def start_def matching_lines_def
      list_output_def)

text \<open>A validated request with no body at all is answered 500, by the \<^verbatim>\<open>catch\<close> of the
  handler.\<close>

lemma absent_body_is_server_error:
  assumes "req_body req = BodyUndefined"
  shows "validateSandbox env s req = (None, s1) \<Longrightarrow>
           route_post_sandbox_exec env s req
             = (\<lparr>status = 500, json = ErrorJson destructure_error, set_cookies = []\<rparr>, s1)"
    and "validateSandbox_k3d env s req = (None, s2) \<Longrightarrow>
           route_post_sandbox_exec_k3d env s req
             = (\<lparr>status = 500, json = ErrorJson destructure_error, set_cookies = []\<rparr>, s2)"
  using assms
  by (simp_all add: route_post_sandbox_exec_def route_post_sandbox_exec_k3d_def
      post_sandbox_exec_def post_sandbox_exec_k3d_def)

text \<open>
  C8 as stated has the request rejected before any driver call. With a cookie and no
  command, the history after the rejection holds one driver call: the list query.
\<close>

theorem missing_command_driver_call_counterexample:
  "route_post_sandbox_exec (scripted k3d_host 1000 ''abc1234567'') start
      (client (Some ''sb-abc1234567'') None)
     = (\<lparr>status = 400, json = ErrorJson ''Command not provided'', set_cookies = []\<rparr>,
        \<lparr>sandboxes = [], creationLocks = [], world = (),
         calls = [(''k3d'', [''cluster'', ''list'', ''sb-abc1234567''])]\<rparr>)
   \<and> route_post_sandbox_exec_k3d (scripted k3d_host 1000 ''abc1234567'') start
      (client (Some ''sb-abc1234567'') None)
     = (\<lparr>status = 400, json = ErrorJson ''Command not provided'', set_cookies = []\<rparr>,
        \<lparr>sandboxes = [], creationLocks = [], world = (),
         calls = [(''k3d'', [''cluster'', ''list''])]\<rparr>)"
  by (simp add: route_post_sandbox_exec_def route_post_sandbox_exec_k3d_def
      validateSandbox_def validateSandbox_k3d_def post_sandbox_exec_def
      post_sandbox_exec_k3d_def run_execa_def scripted_def k3d_host_def start_def client_def
      matching_lines_def list_output_def)

subsection \<open>The output of an execution\<close>

text \<open>
  For a validated request whose \<^verbatim>\<open>kubectl\<close> call resolves with standard output \<open>out\<close>, the
  k3d edition answers with \<open>out\<close> in the field \<^verbatim>\<open>output\<close>; \<^verbatim>\<open>backend/src/server.js\<close> reads
  \<^verbatim>\<open>.stdout\<close> of the string that \<^verbatim>\<open>executeKubectlCommand\<close> returned, which is
  \<^verbatim>\<open>undefined\<close>.
\<close>

lemma exec_output_k3d:
  assumes "validateSandbox_k3d env s req = (None, s1)"
    and "req_body req = BodyObject (Some command)" and "command \<noteq> []"
    and "fst (execa env (world s1) ''kubectl''
            ([''--context'', ''k3d-'' @ cookie_text req] @ js_split CHR '' '' command)) = Inr out"
  shows "fst (route_post_sandbox_exec_k3d env s req)
           = \<lparr>status = 200, json = ExecJson ''Command executed successfully'' command (JString out),
              set_cookies = []\<rparr>"
  using assms
  by (auto simp: route_post_sandbox_exec_k3d_def post_sandbox_exec_k3d_def
      executeKubectlCommand_k3d_def run_execa_def Let_def split: prod.splits sum.splits)

lemma exec_output_server_js:
  assumes "validateSandbox env s req = (None, s1)"
    and "req_body req = BodyObject (Some command)" and "command \<noteq> []"
    and "fst (execa env (world s1) ''kubectl''
            ([''--context'', ''kind-'' @ cookie_text req] @ js_split CHR '' '' command)) = Inr out"
  shows "fst (route_post_sandbox_exec env s req)
           = \<lparr>status = 200, json = ExecJson ''Command executed successfully'' command JUndefined,
              set_cookies = []\<rparr>"
  using assms
  by (auto simp: route_post_sandbox_exec_def post_sandbox_exec_def
      executeKubectlCommand_def run_execa_def Let_def string_property_def
      split: prod.splits sum.splits)

text \<open>
  C4 fails in \<^verbatim>\<open>backend/src/server.js\<close>. On a host where the validation passes and
  \<^verbatim>\<open>kubectl --context kind-sb-abc1234567 get pods\<close> prints
  \<^verbatim>\<open>No resources found in default namespace.\<close>, the response to the command
  \<^verbatim>\<open>get pods\<close> has status 200 and its field \<^verbatim>\<open>output\<close> is \<^verbatim>\<open>undefined\<close>.
\<close>

theorem exec_output_undefined_in_server_js:
  "fst (execa (scripted k3d_host 1000 ''abc1234567'') ()
         ''kubectl'' [''--context'', ''kind-sb-abc1234567'', ''get'', ''pods''])
     = Inr ''No resources found in default namespace.''
   \<and> route_post_sandbox_exec (scripted k3d_host 1000 ''abc1234567'') start
        (client (Some ''sb-abc1234567'') (Some ''get pods''))
     = (\<lparr>status = 200,
         json = ExecJson ''Command executed successfully'' ''get pods'' JUndefined,
         set_cookies = []\<rparr>,
        \<lparr>sandboxes = [], creationLocks = [], world = (),
         calls = [(''k3d'', [''cluster'', ''list'', ''sb-abc1234567'']),
                  (''kubectl'', [''--context'', ''kind-sb-abc1234567'', ''get'', ''pods''])]\<rparr>)"
  by (simp add: route_post_sandbox_exec_def validateSandbox_def post_sandbox_exec_def
      executeKubectlCommand_def run_execa_def scripted_def k3d_host_def start_def client_def
      cookie_text_def string_property_def Let_def)

subsection \<open>What the validation asks\<close>

text \<open>
  The k3d edition passes a request exactly when it has a non-empty cookie, \<^verbatim>\<open>k3d cluster list\<close>
  resolves and some line of its output contains the cookie's value.
  \<^verbatim>\<open>backend/src/server.js\<close> passes it exactly when \<^verbatim>\<open>k3d cluster list <id>\<close> resolves.
\<close>

lemma js_includes_iff: "js_includes line sub \<longleftrightarrow> sublist sub line"
  by (induction line) (auto simp: sublist_Cons_right)

lemma validateSandbox_k3d_live_iff:
  "fst (validateSandbox_k3d env s req) = None \<longleftrightarrow>
     (\<exists>sid out. cookie_sandboxId req = Some sid \<and> sid \<noteq> []
        \<and> fst (execa env (world s) ''k3d'' [''cluster'', ''list'']) = Inr out
        \<and> (\<exists>line \<in> set (js_split (CHR 0x0A) out). sublist sid line))"
  by (auto simp: validateSandbox_k3d_def run_execa_def matching_lines_def js_includes_iff
      filter_empty_conv split: option.splits prod.splits sum.splits)

lemma validateSandbox_live_iff:
  "fst (validateSandbox env s req) = None \<longleftrightarrow>
     (\<exists>sid. cookie_sandboxId req = Some sid \<and> sid \<noteq> []
        \<and> \<not> isl (fst (execa env (world s) ''k3d'' [''cluster'', ''list'', sid])))"
  by (auto simp: validateSandbox_def run_execa_def split: option.splits prod.splits sum.splits)

text \<open>
  C1 fails in \<^verbatim>\<open>backend/src/server.js\<close>: its clusters are created by \<^verbatim>\<open>kind\<close>, and the
  validation asks \<^verbatim>\<open>k3d\<close>. On a host where \<^verbatim>\<open>kind\<close> accepts every command and \<^verbatim>\<open>k3d\<close>
  knows no cluster, a request to \<^verbatim>\<open>POST /sandbox\<close> creates \<^verbatim>\<open>sb-abc1234567\<close> and sets the
  cookie; the validation of the next request with that cookie answers 404, clears the
  cookie and removes the entry.
\<close>

theorem validation_asks_k3d_for_kind_cluster:
  "route_post_sandbox (scripted (failing ''k3d'') 1000 ''abc1234567'') start (client None None)
     = (\<lparr>status = 200,
         json = SandboxJson ''Sandbox created successfully'' ''sb-abc1234567'' ''60 minutes'',
         set_cookies = [SetCookie ''sandboxId'' ''sb-abc1234567'' 3600000]\<rparr>,
        \<lparr>sandboxes = [(''sb-abc1234567'', 1000)], creationLocks = [], world = (),
         calls = [(''kind'', [''create'', ''cluster'', ''--config'',
                             ''/tmp/sb-abc1234567-config.yaml''])]\<rparr>)
   \<and> validateSandbox (scripted (failing ''k3d'') 1000 ''abc1234567'')
        \<lparr>sandboxes = [(''sb-abc1234567'', 1000)], creationLocks = [], world = (),
         calls = [(''kind'', [''create'', ''cluster'', ''--config'',
                             ''/tmp/sb-abc1234567-config.yaml''])]\<rparr>
        (client (Some ''sb-abc1234567'') (Some ''get pods''))
     = (Some \<lparr>status = 404, json = ErrorJson ''Sandbox not found or expired.'',
              set_cookies = [ClearCookie ''sandboxId'']\<rparr>,
        \<lparr>sandboxes = [], creationLocks = [], world = (),
         calls = [(''kind'', [''create'', ''cluster'', ''--config'',
                             ''/tmp/sb-abc1234567-config.yaml'']),
                  (''k3d'', [''cluster'', ''list'', ''sb-abc1234567''])]\<rparr>)"
  by (simp add: route_post_sandbox_def preventConcurrentRequests_def on_finish_def
      post_sandbox_def create_new_def createCluster_def validateSandbox_def run_execa_def
      scripted_def failing_def k3d_host_def start_def client_def Let_def expiresIn_def
      SANDBOX_LIFETIME_MS_def)

section \<open>Reusing a sandbox\<close>

lemma lock_taken_and_released:
  "map_of (AList.delete k (AList.update k True locks)) k = None"
  by (simp add: delete_conv)

lemma post_sandbox_reuse:
  assumes "fst (validateSandbox env s req) = None"
  shows "fst (post_sandbox env s req)
           = \<lparr>status = 200,
              json = SandboxJson ''Using existing sandbox'' (cookie_text req) expiresIn,
              set_cookies = []\<rparr>
     \<and> sandboxes (snd (post_sandbox env s req)) = sandboxes s
     \<and> creationLocks (snd (post_sandbox env s req)) = creationLocks s
     \<and> calls (snd (post_sandbox env s req))
         = calls s @ [(''k3d'', [''cluster'', ''list'', cookie_text req])]"
  using assms
  by (auto simp: validateSandbox_def post_sandbox_def run_execa_def cookie_text_def
      split: option.splits prod.splits sum.splits if_splits)

lemma post_sandbox_k3d_reuse:
  assumes "fst (validateSandbox_k3d env s req) = None"
  shows "fst (post_sandbox_k3d env s req)
           = \<lparr>status = 200,
              json = SandboxJson ''Using existing sandbox'' (cookie_text req) expiresIn,
              set_cookies = []\<rparr>
     \<and> sandboxes (snd (post_sandbox_k3d env s req)) = sandboxes s
     \<and> creationLocks (snd (post_sandbox_k3d env s req)) = creationLocks s
     \<and> calls (snd (post_sandbox_k3d env s req))
         = calls s @ [(''k3d'', [''cluster'', ''list''])]"
  using assms
  by (auto simp: validateSandbox_k3d_def post_sandbox_k3d_def run_execa_def cookie_text_def
      split: option.splits prod.splits sum.splits if_splits)

lemma validateSandbox_frame:
  "fst (validateSandbox env (s\<lparr>creationLocks := l\<rparr>) req) = fst (validateSandbox env s req)"
  "fst (validateSandbox env (s\<lparr>sandboxes := m\<rparr>) req) = fst (validateSandbox env s req)"
  by (auto simp: validateSandbox_def run_execa_def split: option.splits prod.splits sum.splits)

lemma validateSandbox_k3d_frame:
  "fst (validateSandbox_k3d env (s\<lparr>creationLocks := l\<rparr>) req)
     = fst (validateSandbox_k3d env s req)"
  "fst (validateSandbox_k3d env (s\<lparr>sandboxes := m\<rparr>) req)
     = fst (validateSandbox_k3d env s req)"
  by (auto simp: validateSandbox_k3d_def run_execa_def
      split: option.splits prod.splits sum.splits)

lemma route_post_sandbox_reuse:
  assumes "map_of (creationLocks s) (ip req) \<noteq> Some True"
    and "fst (validateSandbox env s req) = None"
    and "\<not> aborted req"
  shows "fst (route_post_sandbox env s req)
           = \<lparr>status = 200,
              json = SandboxJson ''Using existing sandbox'' (cookie_text req) expiresIn,
              set_cookies = []\<rparr>
     \<and> sandboxes (snd (route_post_sandbox env s req)) = sandboxes s
     \<and> map_of (creationLocks (snd (route_post_sandbox env s req))) (ip req) = None
     \<and> calls (snd (route_post_sandbox env s req))
         = calls s @ [(''k3d'', [''cluster'', ''list'', cookie_text req])]"
proof -
  let ?s1 = "s\<lparr>creationLocks := AList.update (ip req) True (creationLocks s)\<rparr>"
  have r: "route_post_sandbox env s req
             = (fst (post_sandbox env ?s1 req), on_finish (snd (post_sandbox env ?s1 req)) req)"
    using assms(1,3)
    by (simp add: route_post_sandbox_def preventConcurrentRequests_def split: prod.splits)
  have v: "fst (validateSandbox env ?s1 req) = None"
    using assms(2) by (simp add: validateSandbox_frame)
  show ?thesis
    unfolding r using post_sandbox_reuse[OF v]
    by (simp add: on_finish_def lock_taken_and_released)
qed

lemma route_post_sandbox_k3d_reuse:
  assumes "map_of (creationLocks s) (ip req) \<noteq> Some True"
    and "fst (validateSandbox_k3d env s req) = None"
    and "\<not> aborted req"
  shows "fst (route_post_sandbox_k3d env s req)
           = \<lparr>status = 200,
              json = SandboxJson ''Using existing sandbox'' (cookie_text req) expiresIn,
              set_cookies = []\<rparr>
     \<and> sandboxes (snd (route_post_sandbox_k3d env s req)) = sandboxes s
     \<and> map_of (creationLocks (snd (route_post_sandbox_k3d env s req))) (ip req) = None
     \<and> calls (snd (route_post_sandbox_k3d env s req))
         = calls s @ [(''k3d'', [''cluster'', ''list''])]"
proof -
  let ?s1 = "s\<lparr>creationLocks := AList.update (ip req) True (creationLocks s)\<rparr>"
  have r: "route_post_sandbox_k3d env s req
             = (fst (post_sandbox_k3d env ?s1 req),
                on_finish (snd (post_sandbox_k3d env ?s1 req)) req)"
    using assms(1,3)
    by (simp add: route_post_sandbox_k3d_def preventConcurrentRequests_def split: prod.splits)
  have v: "fst (validateSandbox_k3d env ?s1 req) = None"
    using assms(2) by (simp add: validateSandbox_k3d_frame)
  show ?thesis
    unfolding r using post_sandbox_k3d_reuse[OF v]
    by (simp add: on_finish_def lock_taken_and_released)
qed

text \<open>
  C2. Let a request to \<^verbatim>\<open>POST /sandbox\<close> carry a cookie whose sandbox validates as live, from a
  client that holds no creation lock and waits for its answers, and let the sandbox
  validate as live again after the first call. Then two calls in a row both answer \<^verbatim>\<open>Using existing sandbox\<close> with the id of
  the cookie, and the creation calls in the history after them are those before them: the
  call that made the sandbox stays the only one. The map of sandboxes is unchanged. Both
  editions.
\<close>

theorem reuse_twice_creates_nothing:
  "(map_of (creationLocks s) (ip req) \<noteq> Some True \<and> \<not> aborted req
      \<and> fst (validateSandbox env s req) = None
      \<and> fst (validateSandbox env (snd (route_post_sandbox env s req)) req) = None \<longrightarrow>
        json (fst (route_post_sandbox env s req))
          = SandboxJson ''Using existing sandbox'' (cookie_text req) expiresIn
        \<and> json (fst (route_post_sandbox env (snd (route_post_sandbox env s req)) req))
          = SandboxJson ''Using existing sandbox'' (cookie_text req) expiresIn
        \<and> filter is_create_call
             (calls (snd (route_post_sandbox env (snd (route_post_sandbox env s req)) req)))
          = filter is_create_call (calls s)
        \<and> sandboxes (snd (route_post_sandbox env (snd (route_post_sandbox env s req)) req))
          = sandboxes s)
   \<and> (map_of (creationLocks s) (ip req) \<noteq> Some True \<and> \<not> aborted req
      \<and> fst (validateSandbox_k3d env s req) = None
      \<and> fst (validateSandbox_k3d env (snd (route_post_sandbox_k3d env s req)) req) = None \<longrightarrow>
        json (fst (route_post_sandbox_k3d env s req))
          = SandboxJson ''Using existing sandbox'' (cookie_text req) expiresIn
        \<and> json (fst (route_post_sandbox_k3d env (snd (route_post_sandbox_k3d env s req)) req))
          = SandboxJson ''Using existing sandbox'' (cookie_text req) expiresIn
        \<and> filter is_create_call
             (calls (snd (route_post_sandbox_k3d env
                (snd (route_post_sandbox_k3d env s req)) req)))
          = filter is_create_call (calls s)
        \<and> sandboxes (snd (route_post_sandbox_k3d env
             (snd (route_post_sandbox_k3d env s req)) req))
          = sandboxes s)"
  (is "(?P \<longrightarrow> ?A) \<and> (?Q \<longrightarrow> ?B)")
proof (intro conjI)
  show "?P \<longrightarrow> ?A"
  proof
    assume p: ?P
    let ?s1 = "snd (route_post_sandbox env s req)"
    have one: "fst (route_post_sandbox env s req)
           = \<lparr>status = 200,
              json = SandboxJson ''Using existing sandbox'' (cookie_text req) expiresIn,
              set_cookies = []\<rparr>
       \<and> sandboxes ?s1 = sandboxes s
       \<and> map_of (creationLocks ?s1) (ip req) = None
       \<and> calls ?s1 = calls s @ [(''k3d'', [''cluster'', ''list'', cookie_text req])]"
      using p route_post_sandbox_reuse[of s req env] by blast
    then have free: "map_of (creationLocks ?s1) (ip req) \<noteq> Some True" by simp
    have two: "fst (route_post_sandbox env ?s1 req)
           = \<lparr>status = 200,
              json = SandboxJson ''Using existing sandbox'' (cookie_text req) expiresIn,
              set_cookies = []\<rparr>
       \<and> sandboxes (snd (route_post_sandbox env ?s1 req)) = sandboxes ?s1
       \<and> calls (snd (route_post_sandbox env ?s1 req))
           = calls ?s1 @ [(''k3d'', [''cluster'', ''list'', cookie_text req])]"
      using p free route_post_sandbox_reuse[of ?s1 req env] by blast
    show ?A using one two by (simp add: is_create_call_def)
  qed
  show "?Q \<longrightarrow> ?B"
  proof
    assume q: ?Q
    let ?s1 = "snd (route_post_sandbox_k3d env s req)"
    have one: "fst (route_post_sandbox_k3d env s req)
           = \<lparr>status = 200,
              json = SandboxJson ''Using existing sandbox'' (cookie_text req) expiresIn,
              set_cookies = []\<rparr>
       \<and> sandboxes ?s1 = sandboxes s
       \<and> map_of (creationLocks ?s1) (ip req) = None
       \<and> calls ?s1 = calls s @ [(''k3d'', [''cluster'', ''list''])]"
      using q route_post_sandbox_k3d_reuse[of s req env] by blast
    then have free: "map_of (creationLocks ?s1) (ip req) \<noteq> Some True" by simp
    have two: "fst (route_post_sandbox_k3d env ?s1 req)
           = \<lparr>status = 200,
              json = SandboxJson ''Using existing sandbox'' (cookie_text req) expiresIn,
              set_cookies = []\<rparr>
       \<and> sandboxes (snd (route_post_sandbox_k3d env ?s1 req)) = sandboxes ?s1
       \<and> calls (snd (route_post_sandbox_k3d env ?s1 req))
           = calls ?s1 @ [(''k3d'', [''cluster'', ''list''])]"
      using q free route_post_sandbox_k3d_reuse[of ?s1 req env] by blast
    show ?B using one two by (simp add: is_create_call_def)
  qed
qed

lemmas eval_defs =
  route_post_sandbox_def route_post_sandbox_k3d_def preventConcurrentRequests_def
  on_finish_def post_sandbox_def post_sandbox_k3d_def create_new_def create_new_k3d_def
  createCluster_def createCluster_k3d_def validateSandbox_def validateSandbox_k3d_def
  run_execa_def scripted_def k3d_host_def failing_def start_def client_def cookie_text_def
  matching_lines_def list_output_def expiresIn_def SANDBOX_LIFETIME_MS_def Let_def
  is_create_call_def after_creation_def after_creation_k3d_def

text \<open>The theorem after one creation from \<open>start\<close>: the history holds one creation call, both
  further calls answer with \<^verbatim>\<open>sb-abc1234567\<close>, and the history still holds one creation
  call.\<close>

theorem reuse_twice_creates_nothing_witness:
  "snd (route_post_sandbox (scripted k3d_host 1000 ''abc1234567'') start (client None None))
     = after_creation
   \<and> length (filter is_create_call (calls after_creation)) = 1
   \<and> json (fst (route_post_sandbox (scripted k3d_host 1000 ''abc1234567'') after_creation
          (client (Some ''sb-abc1234567'') None)))
     = SandboxJson ''Using existing sandbox'' ''sb-abc1234567'' ''60 minutes''
   \<and> json (fst (route_post_sandbox (scripted k3d_host 1000 ''abc1234567'')
          (snd (route_post_sandbox (scripted k3d_host 1000 ''abc1234567'') after_creation
             (client (Some ''sb-abc1234567'') None)))
          (client (Some ''sb-abc1234567'') None)))
     = SandboxJson ''Using existing sandbox'' ''sb-abc1234567'' ''60 minutes''
   \<and> length (filter is_create_call
        (calls (snd (route_post_sandbox (scripted k3d_host 1000 ''abc1234567'')
          (snd (route_post_sandbox (scripted k3d_host 1000 ''abc1234567'') after_creation
             (client (Some ''sb-abc1234567'') None)))
          (client (Some ''sb-abc1234567'') None))))) = 1
   \<and> snd (route_post_sandbox_k3d (scripted k3d_host 1000 ''abc1234567'') start
        (client None None)) = after_creation_k3d
   \<and> length (filter is_create_call (calls after_creation_k3d)) = 1
   \<and> json (fst (route_post_sandbox_k3d (scripted k3d_host 1000 ''abc1234567'')
          after_creation_k3d (client (Some ''sb-abc1234567'') None)))
     = SandboxJson ''Using existing sandbox'' ''sb-abc1234567'' ''60 minutes''
   \<and> json (fst (route_post_sandbox_k3d (scripted k3d_host 1000 ''abc1234567'')
          (snd (route_post_sandbox_k3d (scripted k3d_host 1000 ''abc1234567'')
             after_creation_k3d (client (Some ''sb-abc1234567'') None)))
          (client (Some ''sb-abc1234567'') None)))
     = SandboxJson ''Using existing sandbox'' ''sb-abc1234567'' ''60 minutes''
   \<and> length (filter is_create_call
        (calls (snd (route_post_sandbox_k3d (scripted k3d_host 1000 ''abc1234567'')
          (snd (route_post_sandbox_k3d (scripted k3d_host 1000 ''abc1234567'')
             after_creation_k3d (client (Some ''sb-abc1234567'') None)))
          (client (Some ''sb-abc1234567'') None))))) = 1"
proof -
  have created: "snd (route_post_sandbox (scripted k3d_host 1000 ''abc1234567'') start
                   (client None None)) = after_creation"
    "snd (route_post_sandbox_k3d (scripted k3d_host 1000 ''abc1234567'') start
       (client None None)) = after_creation_k3d"
    by (simp_all add: eval_defs)
  have one: "length (filter is_create_call (calls after_creation)) = 1"
    "length (filter is_create_call (calls after_creation_k3d)) = 1"
    by (simp_all add: after_creation_def after_creation_k3d_def is_create_call_def)
  have live: "map_of (creationLocks after_creation) (ip (client (Some ''sb-abc1234567'') None))
        \<noteq> Some True
      \<and> \<not> aborted (client (Some ''sb-abc1234567'') None)
      \<and> fst (validateSandbox (scripted k3d_host 1000 ''abc1234567'') after_creation
             (client (Some ''sb-abc1234567'') None)) = None
      \<and> fst (validateSandbox (scripted k3d_host 1000 ''abc1234567'')
             (snd (route_post_sandbox (scripted k3d_host 1000 ''abc1234567'') after_creation
                (client (Some ''sb-abc1234567'') None)))
             (client (Some ''sb-abc1234567'') None)) = None"
    by (simp add: eval_defs)
  have live_k3d: "map_of (creationLocks after_creation_k3d)
          (ip (client (Some ''sb-abc1234567'') None)) \<noteq> Some True
      \<and> \<not> aborted (client (Some ''sb-abc1234567'') None)
      \<and> fst (validateSandbox_k3d (scripted k3d_host 1000 ''abc1234567'') after_creation_k3d
             (client (Some ''sb-abc1234567'') None)) = None
      \<and> fst (validateSandbox_k3d (scripted k3d_host 1000 ''abc1234567'')
             (snd (route_post_sandbox_k3d (scripted k3d_host 1000 ''abc1234567'')
                after_creation_k3d (client (Some ''sb-abc1234567'') None)))
             (client (Some ''sb-abc1234567'') None)) = None"
    by (simp add: eval_defs)
  have shown: "cookie_text (client (Some ''sb-abc1234567'') None) = ''sb-abc1234567''"
    "expiresIn = ''60 minutes''"
    by (simp_all add: cookie_text_def client_def expiresIn_def)
  show ?thesis
    using reuse_twice_creates_nothing
            [of after_creation "client (Some ''sb-abc1234567'') None"
                "scripted k3d_host 1000 ''abc1234567''"]
          reuse_twice_creates_nothing
            [of after_creation_k3d "client (Some ''sb-abc1234567'') None"
                "scripted k3d_host 1000 ''abc1234567''"]
          live live_k3d created one shown
    by simp
qed

subsection \<open>The reuse is decided by the driver alone\<close>

lemma create_new_not_reused: "\<not> reused (fst (create_new env s cl))"
  using create_new_cases[of env s cl "fst (create_new env s cl)" "snd (create_new env s cl)"]
  by (auto simp: reused_def)

lemma create_new_k3d_not_reused: "\<not> reused (fst (create_new_k3d env s cl))"
  using create_new_k3d_cases[of env s cl "fst (create_new_k3d env s cl)"
          "snd (create_new_k3d env s cl)"]
  by (auto simp: reused_def)

lemma reused_iff_validated:
  "reused (fst (post_sandbox env s req)) \<longleftrightarrow> fst (validateSandbox env s req) = None"
proof
  assume r: "reused (fst (post_sandbox env s req))"
  from post_sandbox_cases[of req env s] show "fst (validateSandbox env s req) = None"
  proof (elim disjE exE conjE)
    fix sid
    assume "cookie_sandboxId req = Some sid" "sid \<noteq> []"
      "\<not> isl (fst (execa env (world s) ''k3d'' [''cluster'', ''list'', sid]))"
    then show ?thesis by (auto simp: validateSandbox_live_iff)
  next
    fix s0 cl
    assume "post_sandbox env s req = create_new env s0 cl"
    then show ?thesis using r create_new_not_reused[of env s0 cl] by simp
  qed
next
  assume "fst (validateSandbox env s req) = None"
  from post_sandbox_reuse[OF this] show "reused (fst (post_sandbox env s req))"
    by (simp add: reused_def)
qed

lemma reused_iff_validated_k3d:
  "reused (fst (post_sandbox_k3d env s req)) \<longleftrightarrow>
     fst (validateSandbox_k3d env s req) = None"
proof
  assume r: "reused (fst (post_sandbox_k3d env s req))"
  from post_sandbox_k3d_cases[of req env s] show "fst (validateSandbox_k3d env s req) = None"
  proof (elim disjE exE conjE)
    fix sid out
    assume "cookie_sandboxId req = Some sid" "sid \<noteq> []"
      "fst (execa env (world s) ''k3d'' [''cluster'', ''list'']) = Inr out"
      "matching_lines out sid \<noteq> []"
    then show ?thesis
      by (auto simp: validateSandbox_k3d_def run_execa_def split: prod.splits)
  next
    fix s0 cl
    assume "post_sandbox_k3d env s req = create_new_k3d env s0 cl"
    then show ?thesis using r create_new_k3d_not_reused[of env s0 cl] by simp
  qed
next
  assume "fst (validateSandbox_k3d env s req) = None"
  from post_sandbox_k3d_reuse[OF this] show "reused (fst (post_sandbox_k3d env s req))"
    by (simp add: reused_def)
qed

lemma sweeper_skips_unregistered:
  assumes "map_of (sandboxes s) sid = None"
  shows "delete_call sid
           \<notin> set (drop (length (calls s)) (calls (cleanupExpiredSandboxes env s)))
     \<and> map_of (sandboxes (cleanupExpiredSandboxes env s)) sid = None"
proof -
  have "sid \<notin> fst ` set (sandboxes s)" using assms by (simp add: map_of_eq_None_iff)
  then have n: "sid \<notin> set (expired_ids (date_now env (world s)) (sandboxes s))"
    by (auto simp: expired_ids_def)
  have "delete_call sid \<notin> delete_call ` set (expired_ids (date_now env (world s)) (sandboxes s))"
    using n by (auto simp: delete_call_def)
  then show ?thesis
    using cleanup_loop_kept[OF n, of env s] assms
    by (simp add: cleanupExpiredSandboxes_def cleanup_loop_calls)
qed

lemma sweeper_k3d_skips_unregistered:
  assumes "map_of (sandboxes s) sid = None"
  shows "delete_call_k3d sid
           \<notin> set (drop (length (calls s)) (calls (cleanupExpiredSandboxes_k3d env s)))
     \<and> map_of (sandboxes (cleanupExpiredSandboxes_k3d env s)) sid = None"
proof -
  have "sid \<notin> fst ` set (sandboxes s)" using assms by (simp add: map_of_eq_None_iff)
  then have n: "sid \<notin> set (expired_ids (date_now env (world s)) (sandboxes s))"
    by (auto simp: expired_ids_def)
  have "delete_call_k3d sid
          \<notin> delete_call_k3d ` set (expired_ids (date_now env (world s)) (sandboxes s))"
    using n by (auto simp: delete_call_k3d_def)
  then show ?thesis
    using cleanup_loop_k3d_kept[OF n, of env s] assms
    by (simp add: cleanupExpiredSandboxes_k3d_def cleanup_loop_k3d_calls)
qed

text \<open>
  C10. A request to \<^verbatim>\<open>POST /sandbox\<close> reuses the sandbox of its cookie exactly when the
  validation query to the driver passes, and that verdict is the same for every content of
  the map of sandboxes. A request that reuses answers with the id of the cookie, leaves the
  map as it is, and would reuse with an empty map as well. The sweeper issues no driver
  deletion for an id that has no entry, and the id still has no entry after the run. Both
  editions.
\<close>

theorem reuse_decided_by_driver_alone:
  "(reused (fst (post_sandbox env s req)) \<longleftrightarrow> fst (validateSandbox env s req) = None)
   \<and> fst (validateSandbox env (s\<lparr>sandboxes := registry\<rparr>) req)
       = fst (validateSandbox env s req)
   \<and> (reused (fst (post_sandbox env s req)) \<longrightarrow>
        fst (post_sandbox env s req)
          = \<lparr>status = 200,
             json = SandboxJson ''Using existing sandbox'' (cookie_text req) expiresIn,
             set_cookies = []\<rparr>
        \<and> sandboxes (snd (post_sandbox env s req)) = sandboxes s
        \<and> reused (fst (post_sandbox env (s\<lparr>sandboxes := []\<rparr>) req)))
   \<and> (map_of (sandboxes s) sid = None \<longrightarrow>
        delete_call sid
          \<notin> set (drop (length (calls s)) (calls (cleanupExpiredSandboxes env s)))
        \<and> map_of (sandboxes (cleanupExpiredSandboxes env s)) sid = None)
   \<and> (reused (fst (post_sandbox_k3d env s req)) \<longleftrightarrow>
        fst (validateSandbox_k3d env s req) = None)
   \<and> fst (validateSandbox_k3d env (s\<lparr>sandboxes := registry\<rparr>) req)
       = fst (validateSandbox_k3d env s req)
   \<and> (reused (fst (post_sandbox_k3d env s req)) \<longrightarrow>
        fst (post_sandbox_k3d env s req)
          = \<lparr>status = 200,
             json = SandboxJson ''Using existing sandbox'' (cookie_text req) expiresIn,
             set_cookies = []\<rparr>
        \<and> sandboxes (snd (post_sandbox_k3d env s req)) = sandboxes s
        \<and> reused (fst (post_sandbox_k3d env (s\<lparr>sandboxes := []\<rparr>) req)))
   \<and> (map_of (sandboxes s) sid = None \<longrightarrow>
        delete_call_k3d sid
          \<notin> set (drop (length (calls s)) (calls (cleanupExpiredSandboxes_k3d env s)))
        \<and> map_of (sandboxes (cleanupExpiredSandboxes_k3d env s)) sid = None)"
  (is "?A \<and> ?B \<and> ?C \<and> ?D \<and> ?E \<and> ?F \<and> ?G \<and> ?H")
proof -
  have a: ?A by (rule reused_iff_validated)
  have b: ?B by (rule validateSandbox_frame)
  have c: ?C
    using post_sandbox_reuse[of env s req]
    by (simp add: reused_iff_validated validateSandbox_frame)
  have d: ?D using sweeper_skips_unregistered[of s sid env] by blast
  have e: ?E by (rule reused_iff_validated_k3d)
  have f: ?F by (rule validateSandbox_k3d_frame)
  have g: ?G
    using post_sandbox_k3d_reuse[of env s req]
    by (simp add: reused_iff_validated_k3d validateSandbox_k3d_frame)
  have h: ?H using sweeper_k3d_skips_unregistered[of s sid env] by blast
  show ?thesis by (intro conjI) (fact a, fact b, fact c, fact d, fact e, fact f, fact g, fact h)
qed

text \<open>The theorem at a live cookie and an empty map: the sandbox is reused, the map stays
  empty, and a sweeper run two hours later leaves the id without an entry.\<close>

theorem reuse_decided_by_driver_alone_witness:
  "sandboxes start = []
   \<and> fst (post_sandbox (scripted k3d_host 1000 ''abc1234567'') start
        (client (Some ''sb-abc1234567'') None))
     = \<lparr>status = 200,
        json = SandboxJson ''Using existing sandbox''
                 (cookie_text (client (Some ''sb-abc1234567'') None)) expiresIn,
        set_cookies = []\<rparr>
   \<and> sandboxes (snd (post_sandbox (scripted k3d_host 1000 ''abc1234567'') start
        (client (Some ''sb-abc1234567'') None))) = sandboxes start
   \<and> fst (post_sandbox_k3d (scripted k3d_host 1000 ''abc1234567'') start
        (client (Some ''sb-abc1234567'') None))
     = \<lparr>status = 200,
        json = SandboxJson ''Using existing sandbox''
                 (cookie_text (client (Some ''sb-abc1234567'') None)) expiresIn,
        set_cookies = []\<rparr>
   \<and> sandboxes (snd (post_sandbox_k3d (scripted k3d_host 1000 ''abc1234567'') start
        (client (Some ''sb-abc1234567'') None))) = sandboxes start
   \<and> map_of (sandboxes (cleanupExpiredSandboxes_k3d (scripted k3d_host 7200000 ''abc1234567'')
        start)) ''sb-abc1234567'' = None
   \<and> map_of (sandboxes (cleanupExpiredSandboxes (scripted k3d_host 7200000 ''abc1234567'')
        start)) ''sb-abc1234567'' = None"
proof -
  have v: "fst (validateSandbox (scripted k3d_host 1000 ''abc1234567'') start
              (client (Some ''sb-abc1234567'') None)) = None"
    "fst (validateSandbox_k3d (scripted k3d_host 1000 ''abc1234567'') start
              (client (Some ''sb-abc1234567'') None)) = None"
    by (simp_all add: eval_defs)
  have n: "map_of (sandboxes start) ''sb-abc1234567'' = None" "sandboxes start = []"
    by (simp_all add: start_def)
  show ?thesis
    using reuse_decided_by_driver_alone
            [of "scripted k3d_host 1000 ''abc1234567''" start
                "client (Some ''sb-abc1234567'') None" "[]" "''sb-abc1234567''"]
          reuse_decided_by_driver_alone
            [of "scripted k3d_host 7200000 ''abc1234567''" start
                "client (Some ''sb-abc1234567'') None" "[]" "''sb-abc1234567''"]
          v n
    by blast
qed

section \<open>The creation lock\<close>

lemma post_sandbox_status:
  "status (fst (post_sandbox env s req)) = 200 \<or> status (fst (post_sandbox env s req)) = 500"
  using post_sandbox_failure[of env s req] by blast

lemma post_sandbox_k3d_status:
  "status (fst (post_sandbox_k3d env s req)) = 200
   \<or> status (fst (post_sandbox_k3d env s req)) = 500"
  using post_sandbox_k3d_failure[of env s req] by blast

lemma other_handlers_keep_locks:
  "creationLocks (snd (validateSandbox env s req)) = creationLocks s"
  "creationLocks (snd (validateSandbox_k3d env s req)) = creationLocks s"
  "creationLocks (snd (post_sandbox_exec env s req)) = creationLocks s"
  "creationLocks (snd (post_sandbox_exec_k3d env s req)) = creationLocks s"
  "creationLocks (snd (delete_sandbox env s req)) = creationLocks s"
  "creationLocks (snd (delete_sandbox_k3d env s req)) = creationLocks s"
  by (auto simp: validateSandbox_def validateSandbox_k3d_def post_sandbox_exec_def
      post_sandbox_exec_k3d_def delete_sandbox_def delete_sandbox_k3d_def
      executeKubectlCommand_def executeKubectlCommand_k3d_def deleteCluster_def
      deleteCluster_k3d_def run_execa_def Let_def
      split: option.splits prod.splits sum.splits request_body.splits)

lemma cleanup_loop_locks:
  "creationLocks (cleanup_loop env now xs s) = creationLocks s"
  by (induction xs arbitrary: s)
    (auto simp: deleteCluster_def run_execa_def split: prod.splits sum.splits)

lemma cleanup_loop_k3d_locks:
  "creationLocks (cleanup_loop_k3d env now xs s) = creationLocks s"
  by (induction xs arbitrary: s)
    (auto simp: deleteCluster_k3d_def run_execa_def split: prod.splits sum.splits)

lemma sweeper_keeps_locks:
  "creationLocks (cleanupExpiredSandboxes env s) = creationLocks s"
  "creationLocks (cleanupExpiredSandboxes_k3d env s) = creationLocks s"
  by (simp_all add: cleanupExpiredSandboxes_def cleanupExpiredSandboxes_k3d_def
      cleanup_loop_locks cleanup_loop_k3d_locks)

lemma image_remove1:
  assumes "distinct (map f xs)" and "x \<in> set xs"
  shows "f ` set (remove1 x xs) = f ` set xs - {f x}"
  using assms
proof (induction xs)
  case Nil
  then show ?case by simp
next
  case (Cons a xs)
  then show ?case by (cases "a = x") auto
qed

lemma distinct_map_remove1: "distinct (map f xs) \<Longrightarrow> distinct (map f (remove1 x xs))"
proof (induction xs)
  case Nil
  then show ?case by simp
next
  case (Cons a xs)
  have "set (remove1 x xs) \<subseteq> set xs" by (rule set_remove1_subset)
  then show ?case using Cons by auto
qed

lemma reachable_invariant:
  assumes "reachable (s, flight)"
  shows "distinct (map ip flight)
     \<and> (\<forall>k. map_of (creationLocks s) k = Some True \<longleftrightarrow> k \<in> ip ` set flight)"
  using assms
proof (induction "(s, flight)" arbitrary: s flight rule: reachable.induct)
  case (init s)
  then show ?case by simp
next
  case (granted s flight req s')
  have free: "map_of (creationLocks s) (ip req) \<noteq> Some True"
    and s': "s' = s\<lparr>creationLocks := AList.update (ip req) True (creationLocks s)\<rparr>"
    using granted.hyps(3) by (auto simp: preventConcurrentRequests_def split: if_splits)
  have "ip req \<notin> ip ` set flight" using free granted.hyps(2) by blast
  then show ?case using granted.hyps(2) s' by (auto simp: update_conv')
next
  case (refused s flight req res s')
  have "s' = s"
    using refused.hyps(3) by (auto simp: preventConcurrentRequests_def split: if_splits)
  then show ?case using refused.hyps(2) by simp
next
  case (work s flight s')
  then show ?case by simp
next
  case (finish s flight req)
  have d: "distinct (map ip flight)" using finish.hyps(2) by blast
  have "ip ` set (remove1 req flight) = ip ` set flight - {ip req}"
    using image_remove1[OF d finish.hyps(3)] .
  then show ?case
    using finish.hyps(2) distinct_map_remove1[OF d, of req]
    by (auto simp: on_finish_def delete_conv)
qed

lemma on_finish_releases:
  "map_of (creationLocks (on_finish t req)) (ip req) = None"
  by (simp add: on_finish_def delete_conv)

lemma on_finish_others:
  "other \<noteq> ip req \<Longrightarrow>
     map_of (creationLocks (on_finish t req)) other = map_of (creationLocks t) other"
  by (simp add: on_finish_def delete_conv)

text \<open>
  What holds of the lock. While a client holds it, a request from it to \<^verbatim>\<open>POST /sandbox\<close> is
  answered 429 and the state, with its history of driver calls, is the one before. A
  request from a client that holds no lock takes it in the middleware and runs the handler,
  which answers 200 or 500 on each of its paths and leaves the locks as they are. When the
  client waits for the answer, the \<^verbatim>\<open>finish\<close> callback runs and the client holds no lock
  afterwards; when the client has closed the connection, the client still holds the lock
  after the request. The callback leaves the locks of other clients as they are. In every
  state that interleaved requests can reach, no two admitted requests that have not
  finished come from the same client, and a client holds the lock exactly while one of its
  requests is admitted and not finished. Both editions.
\<close>

lemma creation_lock_admits_one:
  "(map_of (creationLocks s) (ip req) = Some True \<longrightarrow>
      route_post_sandbox env s req = (denied, s)
      \<and> route_post_sandbox_k3d env s req = (denied, s))
   \<and> (map_of (creationLocks s) (ip req) \<noteq> Some True \<longrightarrow>
      fst (preventConcurrentRequests s req) = None
      \<and> map_of (creationLocks (snd (preventConcurrentRequests s req))) (ip req) = Some True
      \<and> (status (fst (route_post_sandbox env s req)) = 200
           \<or> status (fst (route_post_sandbox env s req)) = 500)
      \<and> (status (fst (route_post_sandbox_k3d env s req)) = 200
           \<or> status (fst (route_post_sandbox_k3d env s req)) = 500)
      \<and> map_of (creationLocks (snd (route_post_sandbox env s req))) (ip req)
          = (if aborted req then Some True else None)
      \<and> map_of (creationLocks (snd (route_post_sandbox_k3d env s req))) (ip req)
          = (if aborted req then Some True else None))
   \<and> creationLocks (snd (post_sandbox env s req)) = creationLocks s
   \<and> creationLocks (snd (post_sandbox_k3d env s req)) = creationLocks s
   \<and> map_of (creationLocks (on_finish s req)) (ip req) = None
   \<and> (other \<noteq> ip req \<longrightarrow>
        map_of (creationLocks (on_finish s req)) other = map_of (creationLocks s) other)
   \<and> (reachable (t, flight) \<longrightarrow>
        distinct (map ip flight)
        \<and> (\<forall>k. map_of (creationLocks t) k = Some True \<longleftrightarrow> k \<in> ip ` set flight))"
  (is "(?L \<longrightarrow> ?A) \<and> (?F \<longrightarrow> ?B) \<and> ?C \<and> ?D \<and> ?E \<and> ?G \<and> ?I")
proof -
  have a: "?L \<longrightarrow> ?A"
    by (simp add: route_post_sandbox_def route_post_sandbox_k3d_def
        preventConcurrentRequests_def denied_def)
  have b: "?F \<longrightarrow> ?B"
  proof
    assume f: ?F
    let ?s1 = "s\<lparr>creationLocks := AList.update (ip req) True (creationLocks s)\<rparr>"
    have p: "preventConcurrentRequests s req = (None, ?s1)"
      using f by (simp add: preventConcurrentRequests_def)
    have held: "map_of (creationLocks ?s1) (ip req) = Some True"
      by (simp add: update_conv')
    have r1: "route_post_sandbox env s req
                = (fst (post_sandbox env ?s1 req),
                   if aborted req then snd (post_sandbox env ?s1 req)
                   else on_finish (snd (post_sandbox env ?s1 req)) req)"
      using p by (simp add: route_post_sandbox_def split: prod.splits)
    have r2: "route_post_sandbox_k3d env s req
                = (fst (post_sandbox_k3d env ?s1 req),
                   if aborted req then snd (post_sandbox_k3d env ?s1 req)
                   else on_finish (snd (post_sandbox_k3d env ?s1 req)) req)"
      using p by (simp add: route_post_sandbox_k3d_def split: prod.splits)
    show ?B
      using p held r1 r2 post_sandbox_status[of env ?s1 req]
        post_sandbox_k3d_status[of env ?s1 req]
      by (simp add: on_finish_releases post_sandbox_locks post_sandbox_k3d_locks)
  qed
  have c: ?C by (rule post_sandbox_locks)
  have d: ?D by (rule post_sandbox_k3d_locks)
  have e: ?E by (rule on_finish_releases)
  have g: ?G by (simp add: on_finish_others)
  have i: ?I using reachable_invariant[of t flight] by blast
  show ?thesis by (intro conjI) (fact a, fact b, fact c, fact d, fact e, fact g, fact i)
qed

text \<open>
  C9 fails in both editions. The only release of the lock is the callback of the
  response's \<^verbatim>\<open>finish\<close> event, and that event does not fire when the client has closed the
  connection before the answer is sent. On a host whose driver accepts every command, a
  request to \<^verbatim>\<open>POST /sandbox\<close> from \<^verbatim>\<open>10.0.0.1\<close> whose client closes the connection during
  the creation runs the handler to its successful end and leaves the lock in place; the
  next request from \<^verbatim>\<open>10.0.0.1\<close>, with no other request in progress, is answered 429.
\<close>

theorem aborted_creation_keeps_the_lock:
  "route_post_sandbox (scripted k3d_host 1000 ''abc1234567'') start
      ((client None None)\<lparr>aborted := True\<rparr>)
     = (\<lparr>status = 200,
         json = SandboxJson ''Sandbox created successfully'' ''sb-abc1234567'' ''60 minutes'',
         set_cookies = [SetCookie ''sandboxId'' ''sb-abc1234567'' 3600000]\<rparr>,
        after_creation\<lparr>creationLocks := [(''10.0.0.1'', True)]\<rparr>)
   \<and> route_post_sandbox (scripted k3d_host 1000 ''abc1234567'')
      (after_creation\<lparr>creationLocks := [(''10.0.0.1'', True)]\<rparr>)
      (client (Some ''sb-abc1234567'') None)
     = (denied, after_creation\<lparr>creationLocks := [(''10.0.0.1'', True)]\<rparr>)
   \<and> route_post_sandbox_k3d (scripted k3d_host 1000 ''abc1234567'') start
      ((client None None)\<lparr>aborted := True\<rparr>)
     = (\<lparr>status = 200,
         json = SandboxJson ''Sandbox created successfully'' ''sb-abc1234567'' ''60 minutes'',
         set_cookies = [SetCookie ''sandboxId'' ''sb-abc1234567'' 3600000]\<rparr>,
        after_creation_k3d\<lparr>creationLocks := [(''10.0.0.1'', True)]\<rparr>)
   \<and> route_post_sandbox_k3d (scripted k3d_host 1000 ''abc1234567'')
      (after_creation_k3d\<lparr>creationLocks := [(''10.0.0.1'', True)]\<rparr>)
      (client (Some ''sb-abc1234567'') None)
     = (denied, after_creation_k3d\<lparr>creationLocks := [(''10.0.0.1'', True)]\<rparr>)"
  by (simp add: eval_defs denied_def)

end
